theory Spec2Isabelle
  imports Complex_Main
begin

section \<open>Data model\<close>

text \<open>
  The two source files, \<^verbatim>\<open>colab_feature_engineering_full.py\<close> (the complete pipeline) and
  \<^verbatim>\<open>colab_feature_engineering.py\<close> (the shorter notebook cell), share the input tables.
  Identifiers are natural numbers.  Python floats are idealised as reals and Python
  integers are unbounded.  A nullable score is an option: \<open>None\<close> stands for a
  null/NaN cell, which is what \<^verbatim>\<open>pd.notna\<close> tests.  The timestamp is taken as already
  parsed by \<^verbatim>\<open>pd.to_datetime\<close> into the three fields that are read.
\<close>

type_synonym team_id = nat
type_synonym game_id = nat

record timestamp =
  hour :: nat
  dayofweek :: nat
  month :: nat

record game =
  gid :: game_id
  home_team_id :: team_id
  away_team_id :: team_id
  home_score :: "real option"
  away_score :: "real option"
  created_at :: timestamp

text \<open>
  The auxiliary tables.  A table carries its column names where the code tests for them.
  The rows of the player statistics table are opaque: they are only handed to the
  pandas aggregation, which is a parameter of the model.  In a weather row \<open>None\<close>
  stands for an absent entry; team ids and sentiment scores are present in every row.
\<close>

record 'r stats_df =
  stats_columns :: "string list"
  stats_rows :: "'r list"

record injury_row =
  inj_team_id :: team_id
  severity :: "string option"

record injuries_df =
  inj_columns :: "string list"
  inj_rows :: "injury_row list"

record weather_row =
  w_game_id :: "game_id option"
  temperature :: "real option"
  wind_speed :: "real option"

record sentiment_row =
  s_team_id :: team_id
  sentiment_score :: real

record sentiment_df =
  sent_columns :: "string list"
  sent_rows :: "sentiment_row list"

text \<open>
  The per-team dictionary created at lines 66-79 of the complete pipeline.  The shorter
  cell creates only the first six entries; the others then stay at their initial value.
\<close>

record team_record =
  games :: int
  wins :: int
  losses :: int
  points_for :: real
  points_against :: real
  recent_form :: "int list"
  home_games :: int
  home_wins :: int
  away_games :: int
  away_wins :: int
  streak :: int
  rest_days :: int

type_synonym team_store = "team_id \<rightharpoonup> team_record"

text \<open>The four lookup dictionaries built before the game loop.\<close>

record lookups =
  stats_by_game :: "game_id \<rightharpoonup> ((string \<times> string) \<times> real) list"
  injuries_by_team :: "team_id \<rightharpoonup> nat"
  weather_by_game :: "game_id \<rightharpoonup> weather_row"
  sentiment_by_team :: "team_id \<rightharpoonup> real"

text \<open>The state of the game loop: the team dictionary and the two output lists.\<close>

record loop_state =
  team_stats :: team_store
  features :: "real list list"
  labels :: "int list"

datatype py_error = ValueError string | TypeError | KeyError

section \<open>The complete pipeline\<close>

subsection \<open>Lookup tables (lines 19-53)\<close>

text \<open>
  \<open>agg\<close> is \<^verbatim>\<open>stats_df.groupby('game_id').agg(agg_dict).to_dict('index')\<close>; it
  returns \<open>None\<close> when pandas raises, which the bare \<^verbatim>\<open>except: pass\<close> swallows.
\<close>

definition build_stats_by_game ::
  "('r stats_df \<Rightarrow> string list \<Rightarrow> (game_id \<rightharpoonup> ((string \<times> string) \<times> real) list) option)
   \<Rightarrow> 'r stats_df \<Rightarrow> (game_id \<rightharpoonup> ((string \<times> string) \<times> real) list)" where
  "build_stats_by_game agg sdf =
     (if length (stats_rows sdf) > 0 then
        (if ''game_id'' \<in> set (stats_columns sdf) then
           (let agg_dict = filter (\<lambda>c. c \<in> set (stats_columns sdf))
                             [''points'', ''rebounds'', ''assists'', ''turnovers'', ''minutes'']
            in if agg_dict \<noteq> [] then
                 (case agg sdf agg_dict of Some d \<Rightarrow> d | None \<Rightarrow> Map.empty)
               else Map.empty)
         else Map.empty)
      else Map.empty)"

text \<open>\<^verbatim>\<open>injuries_df.groupby('team_id').size().to_dict()\<close>: the number of rows of each team
  that has a row.\<close>

definition group_size :: "injury_row list \<Rightarrow> team_id \<rightharpoonup> nat" where
  "group_size rows t =
     (let n = length (filter (\<lambda>r. inj_team_id r = t) rows)
      in if n = 0 then None else Some n)"

definition build_injuries_by_team :: "injuries_df \<Rightarrow> (team_id \<rightharpoonup> nat)" where
  "build_injuries_by_team idf =
     (if length (inj_rows idf) > 0 \<and> ''team_id'' \<in> set (inj_columns idf)
      then group_size (inj_rows idf) else Map.empty)"

text \<open>The weather loop: a later row of the same game overwrites an earlier one.\<close>

definition build_weather_by_game :: "weather_row list \<Rightarrow> (game_id \<rightharpoonup> weather_row)" where
  "build_weather_by_game wdf =
     (if length wdf > 0 then
        foldl (\<lambda>m w. case w_game_id w of Some k \<Rightarrow> m(k \<mapsto> w) | None \<Rightarrow> m) Map.empty wdf
      else Map.empty)"

text \<open>\<^verbatim>\<open>sentiment_df.groupby('team_id')['sentiment_score'].mean().to_dict()\<close>.\<close>

definition group_mean :: "sentiment_row list \<Rightarrow> team_id \<rightharpoonup> real" where
  "group_mean rows t =
     (let xs = map sentiment_score (filter (\<lambda>r. s_team_id r = t) rows)
      in if xs = [] then None else Some (sum_list xs / real (length xs)))"

definition build_sentiment_by_team :: "sentiment_df \<Rightarrow> (team_id \<rightharpoonup> real)" where
  "build_sentiment_by_team sdf =
     (if length (sent_rows sdf) > 0 then
        (if ''team_id'' \<in> set (sent_columns sdf) \<and> ''sentiment_score'' \<in> set (sent_columns sdf)
         then group_mean (sent_rows sdf) else Map.empty)
      else Map.empty)"

definition build_lookups ::
  "('r stats_df \<Rightarrow> string list \<Rightarrow> (game_id \<rightharpoonup> ((string \<times> string) \<times> real) list) option)
   \<Rightarrow> 'r stats_df \<Rightarrow> injuries_df \<Rightarrow> weather_row list \<Rightarrow> sentiment_df \<Rightarrow> lookups" where
  "build_lookups agg sdf idf wdf sndf =
     \<lparr> stats_by_game = build_stats_by_game agg sdf,
       injuries_by_team = build_injuries_by_team idf,
       weather_by_game = build_weather_by_game wdf,
       sentiment_by_team = build_sentiment_by_team sndf \<rparr>"

subsection \<open>Team dictionary (lines 63-79)\<close>

definition new_team_stats :: team_record where
  "new_team_stats =
     \<lparr> games = 0, wins = 0, losses = 0, points_for = 0, points_against = 0,
       recent_form = [], home_games = 0, home_wins = 0, away_games = 0, away_wins = 0,
       streak = 0, rest_days = 0 \<rparr>"

definition init_team :: "team_id \<Rightarrow> team_store \<Rightarrow> team_store" where
  "init_team t ts = (case ts t of None \<Rightarrow> ts(t \<mapsto> new_team_stats) | Some s \<Rightarrow> ts)"

text \<open>
  \<^verbatim>\<open>home_stats\<close> and \<^verbatim>\<open>away_stats\<close> are references into the team dictionary, and they
  are the same object when a game names one team twice.  Every assignment through
  such a reference is therefore an update of the store at that team's key, applied in
  the order of the source.  Both keys exist after \<open>init_team\<close>.
\<close>

definition modify :: "team_id \<Rightarrow> (team_record \<Rightarrow> team_record) \<Rightarrow> team_store \<Rightarrow> team_store" where
  "modify t f ts = (case ts t of Some s \<Rightarrow> ts(t \<mapsto> f s) | None \<Rightarrow> ts)"

subsection \<open>Feature vector (lines 89-155)\<close>

text \<open>\<^verbatim>\<open>xs[-n:]\<close> for positive \<open>n\<close>: the last \<open>n\<close> entries, or all of a shorter list.\<close>

definition last_n :: "nat \<Rightarrow> 'a list \<Rightarrow> 'a list" where
  "last_n n xs = drop (length xs - n) xs"

definition np_mean :: "int list \<Rightarrow> real" where
  "np_mean xs = real_of_int (sum_list xs) / real (length xs)"

definition form_feature :: "int list \<Rightarrow> real" where
  "form_feature rf =
     (let recent = (if length rf \<ge> 5 then last_n 5 rf else rf)
      in if recent \<noteq> [] then np_mean recent else 0.5)"

definition player_features :: "lookups \<Rightarrow> game \<Rightarrow> real list" where
  "player_features L g =
     (let game_stats = (case stats_by_game L (gid g) of Some d \<Rightarrow> d | None \<Rightarrow> [])
      in if game_stats \<noteq> [] then
           (let points_sum = (case map_of game_stats (''points'', ''sum'') of
                                Some v \<Rightarrow> v | None \<Rightarrow> 0);
                points_mean = (case map_of game_stats (''points'', ''mean'') of
                                Some v \<Rightarrow> v | None \<Rightarrow> 0)
            in [points_mean / 20, points_sum / 200])
         else [0, 0])"

definition injury_feature :: "lookups \<Rightarrow> team_id \<Rightarrow> real" where
  "injury_feature L t =
     (let injuries = (case injuries_by_team L t of Some n \<Rightarrow> n | None \<Rightarrow> 0)
      in min (real injuries / 5) 1)"

definition weather_features :: "lookups \<Rightarrow> game \<Rightarrow> real list" where
  "weather_features L g =
     (let temp = (case weather_by_game L (gid g) of
                    Some w \<Rightarrow> (case temperature w of Some v \<Rightarrow> v | None \<Rightarrow> 72)
                  | None \<Rightarrow> 72) / 100;
          wind = (case weather_by_game L (gid g) of
                    Some w \<Rightarrow> (case wind_speed w of Some v \<Rightarrow> v | None \<Rightarrow> 5)
                  | None \<Rightarrow> 5) / 30
      in [temp, wind])"

definition sentiment_feature :: "lookups \<Rightarrow> team_id \<Rightarrow> real" where
  "sentiment_feature L t =
     tanh (case sentiment_by_team L t of Some v \<Rightarrow> v | None \<Rightarrow> 0)"

definition game_features :: "lookups \<Rightarrow> game \<Rightarrow> team_record \<Rightarrow> team_record \<Rightarrow> real list" where
  "game_features L g home_stats away_stats =
     [ real_of_int (wins home_stats) / real_of_int (games home_stats),
       real_of_int (wins away_stats) / real_of_int (games away_stats),
       points_for home_stats / real_of_int (games home_stats),
       points_for away_stats / real_of_int (games away_stats),
       points_against home_stats / real_of_int (games home_stats),
       points_against away_stats / real_of_int (games away_stats),
       form_feature (recent_form home_stats),
       form_feature (recent_form away_stats),
       real_of_int (wins home_stats) / real_of_int (games home_stats)
         - real_of_int (wins away_stats) / real_of_int (games away_stats),
       (points_for home_stats - points_against home_stats) / real_of_int (games home_stats),
       (points_for away_stats - points_against away_stats) / real_of_int (games away_stats) ]
     @ player_features L g
     @ [ injury_feature L (home_team_id g), injury_feature L (away_team_id g) ]
     @ weather_features L g
     @ [ sentiment_feature L (home_team_id g), sentiment_feature L (away_team_id g),
         real (hour (created_at g)) / 24,
         real (dayofweek (created_at g)) / 7,
         real (month (created_at g)) / 12,
         1 ]"

definition game_label :: "real \<Rightarrow> real \<Rightarrow> int" where
  "game_label hs as = (if hs > as then 1 else 0)"

subsection \<open>State update (lines 161-195)\<close>

definition streak_win :: "int \<Rightarrow> int" where
  "streak_win s = (if s > 0 then s + 1 else 1)"

definition streak_loss :: "int \<Rightarrow> int" where
  "streak_loss s = (if s > 0 then - 1 else s - 1)"

definition update_outcome :: "team_id \<Rightarrow> team_id \<Rightarrow> bool \<Rightarrow> team_store \<Rightarrow> team_store" where
  "update_outcome home_id away_id home_won ts =
     (if home_won then
        (modify away_id (\<lambda>s. s\<lparr>streak := streak_loss (streak s)\<rparr>)
         \<circ> modify home_id (\<lambda>s. s\<lparr>streak := streak_win (streak s)\<rparr>)
         \<circ> modify away_id (\<lambda>s. s\<lparr>recent_form := recent_form s @ [0]\<rparr>)
         \<circ> modify home_id (\<lambda>s. s\<lparr>recent_form := recent_form s @ [1]\<rparr>)
         \<circ> modify home_id (\<lambda>s. s\<lparr>home_wins := home_wins s + 1\<rparr>)
         \<circ> modify away_id (\<lambda>s. s\<lparr>losses := losses s + 1\<rparr>)
         \<circ> modify home_id (\<lambda>s. s\<lparr>wins := wins s + 1\<rparr>)) ts
      else
        (modify away_id (\<lambda>s. s\<lparr>streak := streak_win (streak s)\<rparr>)
         \<circ> modify home_id (\<lambda>s. s\<lparr>streak := streak_loss (streak s)\<rparr>)
         \<circ> modify away_id (\<lambda>s. s\<lparr>recent_form := recent_form s @ [1]\<rparr>)
         \<circ> modify home_id (\<lambda>s. s\<lparr>recent_form := recent_form s @ [0]\<rparr>)
         \<circ> modify away_id (\<lambda>s. s\<lparr>away_wins := away_wins s + 1\<rparr>)
         \<circ> modify away_id (\<lambda>s. s\<lparr>wins := wins s + 1\<rparr>)
         \<circ> modify home_id (\<lambda>s. s\<lparr>losses := losses s + 1\<rparr>)) ts)"

text \<open>The statements of lines 162-195 in source order (the last applied is the outermost).\<close>

definition update_team_stats :: "team_id \<Rightarrow> team_id \<Rightarrow> real \<Rightarrow> real \<Rightarrow> team_store \<Rightarrow> team_store" where
  "update_team_stats home_id away_id hs as =
     modify away_id (\<lambda>s. s\<lparr>recent_form := last_n 10 (recent_form s)\<rparr>)
     \<circ> modify home_id (\<lambda>s. s\<lparr>recent_form := last_n 10 (recent_form s)\<rparr>)
     \<circ> update_outcome home_id away_id (hs > as)
     \<circ> modify away_id (\<lambda>s. s\<lparr>away_games := away_games s + 1\<rparr>)
     \<circ> modify home_id (\<lambda>s. s\<lparr>home_games := home_games s + 1\<rparr>)
     \<circ> modify away_id (\<lambda>s. s\<lparr>points_against := points_against s + hs\<rparr>)
     \<circ> modify away_id (\<lambda>s. s\<lparr>points_for := points_for s + as\<rparr>)
     \<circ> modify home_id (\<lambda>s. s\<lparr>points_against := points_against s + as\<rparr>)
     \<circ> modify home_id (\<lambda>s. s\<lparr>points_for := points_for s + hs\<rparr>)
     \<circ> modify away_id (\<lambda>s. s\<lparr>games := games s + 1\<rparr>)
     \<circ> modify home_id (\<lambda>s. s\<lparr>games := games s + 1\<rparr>)"

subsection \<open>The game loop (lines 59-197)\<close>

text \<open>The warm-up test of line 87, on the two dictionaries read at lines 83-84.\<close>

definition warm :: "team_store \<Rightarrow> game \<Rightarrow> bool" where
  "warm ts g =
     (games (the (ts (home_team_id g))) \<ge> 5 \<and> games (the (ts (away_team_id g))) \<ge> 5)"

definition process_game :: "lookups \<Rightarrow> game \<Rightarrow> loop_state \<Rightarrow> loop_state" where
  "process_game L g st =
     (let ts = init_team (away_team_id g) (init_team (home_team_id g) (team_stats st))
      in case (home_score g, away_score g) of
           (Some hs, Some as) \<Rightarrow>
             (let home_stats = the (ts (home_team_id g));
                  away_stats = the (ts (away_team_id g));
                  st1 = (if warm ts g
                         then st\<lparr> features := features st @ [game_features L g home_stats away_stats],
                                  labels := labels st @ [game_label hs as] \<rparr>
                         else st)
              in st1\<lparr> team_stats := update_team_stats (home_team_id g) (away_team_id g) hs as ts \<rparr>)
         | _ \<Rightarrow> st\<lparr> team_stats := ts \<rparr>)"

fun game_loop :: "lookups \<Rightarrow> game list \<Rightarrow> loop_state \<Rightarrow> loop_state" where
  "game_loop L [] st = st"
| "game_loop L (g # gs) st = game_loop L gs (process_game L g st)"

definition init_state :: loop_state where
  "init_state = \<lparr> team_stats = Map.empty, features = [], labels = [] \<rparr>"

definition engineer_features ::
  "('r stats_df \<Rightarrow> string list \<Rightarrow> (game_id \<rightharpoonup> ((string \<times> string) \<times> real) list) option)
   \<Rightarrow> game list \<Rightarrow> 'r stats_df \<Rightarrow> injuries_df \<Rightarrow> weather_row list \<Rightarrow> sentiment_df
   \<Rightarrow> real list list \<times> int list" where
  "engineer_features agg games_df sdf idf wdf sndf =
     (let st = game_loop (build_lookups agg sdf idf wdf sndf) games_df init_state
      in (features st, labels st))"

subsection \<open>The pipeline entry point (lines 200-232)\<close>

text \<open>
  \<open>split_scale\<close> stands for the two stratified \<^verbatim>\<open>train_test_split\<close> calls and the
  \<^verbatim>\<open>StandardScaler\<close> of scikit-learn, which may raise themselves.
\<close>

definition process_data ::
  "(real list list \<Rightarrow> int list \<Rightarrow> py_error + 'o)
   \<Rightarrow> ('r stats_df \<Rightarrow> string list \<Rightarrow> (game_id \<rightharpoonup> ((string \<times> string) \<times> real) list) option)
   \<Rightarrow> game list \<Rightarrow> 'r stats_df \<Rightarrow> injuries_df \<Rightarrow> weather_row list \<Rightarrow> sentiment_df
   \<Rightarrow> py_error + 'o" where
  "process_data split_scale agg df_games df_stats df_injuries df_weather df_sentiment =
     (case engineer_features agg df_games df_stats df_injuries df_weather df_sentiment of
        (X, y) \<Rightarrow>
          if length X = 0 then Inl (ValueError ''No features created! Check your data.'')
          else split_scale X y)"

section \<open>The shorter notebook cell\<close>

text \<open>
  \<^verbatim>\<open>colab_feature_engineering.py\<close> builds its lookups without testing for columns, so
  a missing column raises.  \<open>agg\<close> is again the pandas aggregation of the player
  statistics (\<open>None\<close> when it raises).  The cell iterates \<^verbatim>\<open>weather_df\<close> as a sequence
  of records and keeps those with a truthy game id; the model follows it on such a
  sequence.  None of the results below depends on the contents of the weather lookup.
\<close>

definition group_count :: "injury_row list \<Rightarrow> team_id \<rightharpoonup> nat" where
  "group_count rows t =
     (if filter (\<lambda>r. inj_team_id r = t) rows = [] then None
      else Some (length (filter (\<lambda>r. inj_team_id r = t \<and> severity r \<noteq> None) rows)))"

definition build_weather_by_game_basic :: "weather_row list \<Rightarrow> (game_id \<rightharpoonup> weather_row)" where
  "build_weather_by_game_basic wdf =
     foldl (\<lambda>m w. case w_game_id w of
                     Some k \<Rightarrow> (if k \<noteq> 0 then m(k \<mapsto> w) else m)
                   | None \<Rightarrow> m) Map.empty wdf"

definition build_lookups_basic ::
  "('r stats_df \<Rightarrow> (game_id \<rightharpoonup> ((string \<times> string) \<times> real) list) option)
   \<Rightarrow> 'r stats_df \<Rightarrow> injuries_df \<Rightarrow> weather_row list \<Rightarrow> sentiment_df \<Rightarrow> py_error + lookups" where
  "build_lookups_basic agg sdf idf wdf sndf =
     (case agg sdf of
        None \<Rightarrow> Inl KeyError
      | Some sbg \<Rightarrow>
          if ''team_id'' \<in> set (inj_columns idf) \<and> ''severity'' \<in> set (inj_columns idf) then
            (if ''team_id'' \<in> set (sent_columns sndf) \<and> ''sentiment_score'' \<in> set (sent_columns sndf) then
               Inr \<lparr> stats_by_game = sbg,
                     injuries_by_team = group_count (inj_rows idf),
                     weather_by_game = build_weather_by_game_basic wdf,
                     sentiment_by_team = group_mean (sent_rows sndf) \<rparr>
             else Inl KeyError)
          else Inl KeyError)"

text \<open>
  Lines 90-91 subscript the looked-up aggregate with \<^verbatim>\<open>[0]\<close>.  The stored value is a
  number, so the subscript raises whenever the key is present; only the default
  \<^verbatim>\<open>(0,)\<close> can be subscripted.
\<close>

definition player_feature_basic :: "lookups \<Rightarrow> game \<Rightarrow> string \<Rightarrow> py_error + real" where
  "player_feature_basic L g stat =
     (case stats_by_game L (gid g) of
        Some d \<Rightarrow> (case map_of d (''points'', stat) of Some v \<Rightarrow> Inl TypeError | None \<Rightarrow> Inr 0)
      | None \<Rightarrow> Inr 0)"

definition form_feature_basic :: "int list \<Rightarrow> real" where
  "form_feature_basic rf = (if rf \<noteq> [] then np_mean (last_n 5 rf) else 0.5)"

definition injury_feature_basic :: "lookups \<Rightarrow> team_id \<Rightarrow> real" where
  "injury_feature_basic L t = real (case injuries_by_team L t of Some n \<Rightarrow> n | None \<Rightarrow> 0)"

definition weather_features_basic :: "lookups \<Rightarrow> game \<Rightarrow> real list" where
  "weather_features_basic L g =
     [ (case weather_by_game L (gid g) of
          Some w \<Rightarrow> (case temperature w of Some v \<Rightarrow> v | None \<Rightarrow> 72) / 100
        | None \<Rightarrow> 0.72),
       (case weather_by_game L (gid g) of
          Some w \<Rightarrow> (case wind_speed w of Some v \<Rightarrow> v | None \<Rightarrow> 5) / 30
        | None \<Rightarrow> 0.17) ]"

definition sentiment_feature_basic :: "lookups \<Rightarrow> team_id \<Rightarrow> real" where
  "sentiment_feature_basic L t = (case sentiment_by_team L t of Some v \<Rightarrow> v | None \<Rightarrow> 0)"

definition game_features_basic ::
  "lookups \<Rightarrow> game \<Rightarrow> team_record \<Rightarrow> team_record \<Rightarrow> py_error + real list" where
  "game_features_basic L g home_stats away_stats =
     (case player_feature_basic L g ''mean'' of
        Inl e \<Rightarrow> Inl e
      | Inr pmean \<Rightarrow>
          (case player_feature_basic L g ''sum'' of
             Inl e \<Rightarrow> Inl e
           | Inr psum \<Rightarrow>
               Inr ([ real_of_int (wins home_stats) / real_of_int (games home_stats),
                      real_of_int (wins away_stats) / real_of_int (games away_stats),
                      points_for home_stats / real_of_int (games home_stats),
                      points_for away_stats / real_of_int (games away_stats),
                      points_against home_stats / real_of_int (games home_stats),
                      points_against away_stats / real_of_int (games away_stats),
                      form_feature_basic (recent_form home_stats),
                      form_feature_basic (recent_form away_stats),
                      real_of_int (wins home_stats) / real_of_int (games home_stats)
                        - real_of_int (wins away_stats) / real_of_int (games away_stats),
                      (points_for home_stats - points_against home_stats)
                        / real_of_int (games home_stats),
                      (points_for away_stats - points_against away_stats)
                        / real_of_int (games away_stats),
                      pmean, psum,
                      injury_feature_basic L (home_team_id g),
                      injury_feature_basic L (away_team_id g) ]
                    @ weather_features_basic L g
                    @ [ sentiment_feature_basic L (home_team_id g),
                        sentiment_feature_basic L (away_team_id g),
                        real (hour (created_at g)) / 24,
                        real (dayofweek (created_at g)) / 7,
                        real (month (created_at g)) / 12,
                        1 ])))"

text \<open>The update is written twice in the cell: lines 43-65 under the warm-up test,
  lines 118-139 after an emission.  Each copy is translated on its own.\<close>

definition update_cold_basic :: "team_id \<Rightarrow> team_id \<Rightarrow> real \<Rightarrow> real \<Rightarrow> team_store \<Rightarrow> team_store" where
  "update_cold_basic home_id away_id hs as =
     modify away_id (\<lambda>s. s\<lparr>recent_form := last_n 10 (recent_form s)\<rparr>)
     \<circ> modify home_id (\<lambda>s. s\<lparr>recent_form := last_n 10 (recent_form s)\<rparr>)
     \<circ> (if hs > as then
          modify away_id (\<lambda>s. s\<lparr>recent_form := recent_form s @ [0]\<rparr>)
          \<circ> modify home_id (\<lambda>s. s\<lparr>recent_form := recent_form s @ [1]\<rparr>)
          \<circ> modify away_id (\<lambda>s. s\<lparr>losses := losses s + 1\<rparr>)
          \<circ> modify home_id (\<lambda>s. s\<lparr>wins := wins s + 1\<rparr>)
        else
          modify away_id (\<lambda>s. s\<lparr>recent_form := recent_form s @ [1]\<rparr>)
          \<circ> modify home_id (\<lambda>s. s\<lparr>recent_form := recent_form s @ [0]\<rparr>)
          \<circ> modify away_id (\<lambda>s. s\<lparr>wins := wins s + 1\<rparr>)
          \<circ> modify home_id (\<lambda>s. s\<lparr>losses := losses s + 1\<rparr>))
     \<circ> modify away_id (\<lambda>s. s\<lparr>points_against := points_against s + hs\<rparr>)
     \<circ> modify away_id (\<lambda>s. s\<lparr>points_for := points_for s + as\<rparr>)
     \<circ> modify home_id (\<lambda>s. s\<lparr>points_against := points_against s + as\<rparr>)
     \<circ> modify home_id (\<lambda>s. s\<lparr>points_for := points_for s + hs\<rparr>)
     \<circ> modify away_id (\<lambda>s. s\<lparr>games := games s + 1\<rparr>)
     \<circ> modify home_id (\<lambda>s. s\<lparr>games := games s + 1\<rparr>)"

definition update_warm_basic :: "team_id \<Rightarrow> team_id \<Rightarrow> real \<Rightarrow> real \<Rightarrow> team_store \<Rightarrow> team_store" where
  "update_warm_basic home_id away_id hs as =
     modify away_id (\<lambda>s. s\<lparr>recent_form := last_n 10 (recent_form s)\<rparr>)
     \<circ> modify home_id (\<lambda>s. s\<lparr>recent_form := last_n 10 (recent_form s)\<rparr>)
     \<circ> (if hs > as then
          modify away_id (\<lambda>s. s\<lparr>recent_form := recent_form s @ [0]\<rparr>)
          \<circ> modify home_id (\<lambda>s. s\<lparr>recent_form := recent_form s @ [1]\<rparr>)
          \<circ> modify away_id (\<lambda>s. s\<lparr>losses := losses s + 1\<rparr>)
          \<circ> modify home_id (\<lambda>s. s\<lparr>wins := wins s + 1\<rparr>)
        else
          modify away_id (\<lambda>s. s\<lparr>recent_form := recent_form s @ [1]\<rparr>)
          \<circ> modify home_id (\<lambda>s. s\<lparr>recent_form := recent_form s @ [0]\<rparr>)
          \<circ> modify away_id (\<lambda>s. s\<lparr>wins := wins s + 1\<rparr>)
          \<circ> modify home_id (\<lambda>s. s\<lparr>losses := losses s + 1\<rparr>))
     \<circ> modify away_id (\<lambda>s. s\<lparr>points_against := points_against s + hs\<rparr>)
     \<circ> modify away_id (\<lambda>s. s\<lparr>points_for := points_for s + as\<rparr>)
     \<circ> modify home_id (\<lambda>s. s\<lparr>points_against := points_against s + as\<rparr>)
     \<circ> modify home_id (\<lambda>s. s\<lparr>points_for := points_for s + hs\<rparr>)
     \<circ> modify away_id (\<lambda>s. s\<lparr>games := games s + 1\<rparr>)
     \<circ> modify home_id (\<lambda>s. s\<lparr>games := games s + 1\<rparr>)"

definition process_game_basic :: "lookups \<Rightarrow> game \<Rightarrow> loop_state \<Rightarrow> py_error + loop_state" where
  "process_game_basic L g st =
     (let ts = init_team (away_team_id g) (init_team (home_team_id g) (team_stats st))
      in case (home_score g, away_score g) of
           (Some hs, Some as) \<Rightarrow>
             (let home_stats = the (ts (home_team_id g));
                  away_stats = the (ts (away_team_id g))
              in if games home_stats < 5 \<or> games away_stats < 5 then
                   Inr (st\<lparr> team_stats :=
                              update_cold_basic (home_team_id g) (away_team_id g) hs as ts \<rparr>)
                 else
                   (case game_features_basic L g home_stats away_stats of
                      Inl e \<Rightarrow> Inl e
                    | Inr v \<Rightarrow>
                        Inr (st\<lparr> features := features st @ [v],
                                 labels := labels st @ [game_label hs as],
                                 team_stats :=
                                   update_warm_basic (home_team_id g) (away_team_id g) hs as ts \<rparr>)))
         | _ \<Rightarrow> Inr (st\<lparr> team_stats := ts \<rparr>))"

fun game_loop_basic :: "lookups \<Rightarrow> game list \<Rightarrow> loop_state \<Rightarrow> py_error + loop_state" where
  "game_loop_basic L [] st = Inr st"
| "game_loop_basic L (g # gs) st =
     (case process_game_basic L g st of
        Inl e \<Rightarrow> Inl e
      | Inr st' \<Rightarrow> game_loop_basic L gs st')"

definition engineer_features_basic ::
  "('r stats_df \<Rightarrow> (game_id \<rightharpoonup> ((string \<times> string) \<times> real) list) option)
   \<Rightarrow> game list \<Rightarrow> 'r stats_df \<Rightarrow> injuries_df \<Rightarrow> weather_row list \<Rightarrow> sentiment_df
   \<Rightarrow> py_error + real list list \<times> int list" where
  "engineer_features_basic agg games_df sdf idf wdf sndf =
     (case build_lookups_basic agg sdf idf wdf sndf of
        Inl e \<Rightarrow> Inl e
      | Inr L \<Rightarrow>
          (case game_loop_basic L games_df init_state of
             Inl e \<Rightarrow> Inl e
           | Inr st \<Rightarrow> Inr (features st, labels st)))"

section \<open>Emitted pairs\<close>

text \<open>
  The games of a sequence that pass both tests of the loop (both scores present, both
  teams warmed up), each with the two team dictionaries as they are read before the
  update (lines 83-84 of the complete pipeline, 37-38 of the cell).  The lookups play no
  part in which games emit.  \<open>upd\<close> is the state update of the variant at hand.
\<close>

definition ensure_teams :: "game \<Rightarrow> team_store \<Rightarrow> team_store" where
  "ensure_teams g ts = init_team (away_team_id g) (init_team (home_team_id g) ts)"

fun emissions ::
  "(team_id \<Rightarrow> team_id \<Rightarrow> real \<Rightarrow> real \<Rightarrow> team_store \<Rightarrow> team_store)
   \<Rightarrow> game list \<Rightarrow> team_store \<Rightarrow> (game \<times> team_record \<times> team_record) list" where
  "emissions upd [] ts = []"
| "emissions upd (g # gs) ts =
     (case (home_score g, away_score g) of
        (Some hs, Some as) \<Rightarrow>
          (if warm (ensure_teams g ts) g
           then [(g, the (ensure_teams g ts (home_team_id g)),
                     the (ensure_teams g ts (away_team_id g)))]
           else [])
          @ emissions upd gs (upd (home_team_id g) (away_team_id g) hs as (ensure_teams g ts))
      | _ \<Rightarrow> emissions upd gs (ensure_teams g ts))"

section \<open>Closed forms of the state update\<close>

text \<open>
  What the statements of the update amount to for the home team's and the away team's
  dictionary when the two teams differ, and for the single dictionary when a game names
  one team twice.  The lemmas \<open>update_team_stats_home\<close>, \<open>update_team_stats_away\<close>
  and \<open>update_team_stats_self\<close> below derive them from \<open>update_team_stats\<close>.
\<close>

definition home_after :: "real \<Rightarrow> real \<Rightarrow> team_record \<Rightarrow> team_record" where
  "home_after hs as a =
     a\<lparr> games := games a + 1,
        points_for := points_for a + hs,
        points_against := points_against a + as,
        home_games := home_games a + 1,
        wins := (if hs > as then wins a + 1 else wins a),
        losses := (if hs > as then losses a else losses a + 1),
        home_wins := (if hs > as then home_wins a + 1 else home_wins a),
        recent_form := last_n 10 (recent_form a @ [if hs > as then 1 else 0]),
        streak := (if hs > as then streak_win (streak a) else streak_loss (streak a)) \<rparr>"

definition away_after :: "real \<Rightarrow> real \<Rightarrow> team_record \<Rightarrow> team_record" where
  "away_after hs as b =
     b\<lparr> games := games b + 1,
        points_for := points_for b + as,
        points_against := points_against b + hs,
        away_games := away_games b + 1,
        wins := (if hs > as then wins b else wins b + 1),
        losses := (if hs > as then losses b + 1 else losses b),
        away_wins := (if hs > as then away_wins b else away_wins b + 1),
        recent_form := last_n 10 (recent_form b @ [if hs > as then 0 else 1]),
        streak := (if hs > as then streak_loss (streak b) else streak_win (streak b)) \<rparr>"

definition self_after :: "real \<Rightarrow> real \<Rightarrow> team_record \<Rightarrow> team_record" where
  "self_after hs as a =
     a\<lparr> games := games a + 2,
        points_for := points_for a + hs + as,
        points_against := points_against a + as + hs,
        home_games := home_games a + 1,
        away_games := away_games a + 1,
        wins := wins a + 1,
        losses := losses a + 1,
        home_wins := (if hs > as then home_wins a + 1 else home_wins a),
        away_wins := (if hs > as then away_wins a else away_wins a + 1),
        recent_form :=
          last_n 10 (last_n 10 (recent_form a @ (if hs > as then [1, 0] else [0, 1]))),
        streak := (if hs > as then streak_loss (streak_win (streak a))
                   else streak_win (streak_loss (streak a))) \<rparr>"

text \<open>The same for the cell, whose update touches six entries only.\<close>

definition home_after_basic :: "real \<Rightarrow> real \<Rightarrow> team_record \<Rightarrow> team_record" where
  "home_after_basic hs as a =
     a\<lparr> games := games a + 1,
        points_for := points_for a + hs,
        points_against := points_against a + as,
        wins := (if hs > as then wins a + 1 else wins a),
        losses := (if hs > as then losses a else losses a + 1),
        recent_form := last_n 10 (recent_form a @ [if hs > as then 1 else 0]) \<rparr>"

definition away_after_basic :: "real \<Rightarrow> real \<Rightarrow> team_record \<Rightarrow> team_record" where
  "away_after_basic hs as b =
     b\<lparr> games := games b + 1,
        points_for := points_for b + as,
        points_against := points_against b + hs,
        wins := (if hs > as then wins b else wins b + 1),
        losses := (if hs > as then losses b + 1 else losses b),
        recent_form := last_n 10 (recent_form b @ [if hs > as then 0 else 1]) \<rparr>"

definition self_after_basic :: "real \<Rightarrow> real \<Rightarrow> team_record \<Rightarrow> team_record" where
  "self_after_basic hs as a =
     a\<lparr> games := games a + 2,
        points_for := points_for a + hs + as,
        points_against := points_against a + as + hs,
        wins := wins a + 1,
        losses := losses a + 1,
        recent_form :=
          last_n 10 (last_n 10 (recent_form a @ (if hs > as then [1, 0] else [0, 1]))) \<rparr>"

text \<open>The property of one team dictionary that the loop maintains.\<close>

definition consistent :: "team_record \<Rightarrow> bool" where
  "consistent s \<longleftrightarrow>
     wins s + losses s = games s \<and> int (length (recent_form s)) = min (games s) 10"

section \<open>Example inputs\<close>

text \<open>
  Two teams play each other six times; the sixth game is a tie, and a seventh game is
  added for a second emission.  Team 1 has six injury rows, team 2 has one row without a
  severity.  The player statistics and weather tables are empty.  A second sentiment
  table gives team 1 the scores 1/2 and 3/10 and team 2 none, and a second player
  statistics table holds two player rows of game 6 with their aggregates.
\<close>

definition ex_game :: "game_id \<Rightarrow> team_id \<Rightarrow> team_id \<Rightarrow> real \<Rightarrow> real \<Rightarrow> game" where
  "ex_game i h a hs as =
     \<lparr> gid = i, home_team_id = h, away_team_id = a, home_score = Some hs,
       away_score = Some as, created_at = \<lparr>hour = 18, dayofweek = 2, month = 11\<rparr> \<rparr>"

definition ex_games :: "game list" where
  "ex_games =
     [ex_game 1 1 2 100 90, ex_game 2 2 1 95 98, ex_game 3 1 2 102 88,
      ex_game 4 2 1 95 98, ex_game 5 1 2 100 90, ex_game 6 1 2 90 90]"

definition ex_games7 :: "game list" where
  "ex_games7 = ex_games @ [ex_game 7 1 2 80 70]"

definition ex_agg ::
  "unit stats_df \<Rightarrow> string list \<Rightarrow> (game_id \<rightharpoonup> ((string \<times> string) \<times> real) list) option" where
  "ex_agg d cols = Some Map.empty"

definition ex_agg_basic ::
  "unit stats_df \<Rightarrow> (game_id \<rightharpoonup> ((string \<times> string) \<times> real) list) option" where
  "ex_agg_basic d = Some Map.empty"

definition ex_stats :: "unit stats_df" where
  "ex_stats =
     \<lparr> stats_columns = [''game_id'', ''points'', ''rebounds'', ''assists'', ''turnovers''],
       stats_rows = [] \<rparr>"

definition ex_injuries :: injuries_df where
  "ex_injuries =
     \<lparr> inj_columns = [''team_id'', ''severity''],
       inj_rows = replicate 6 \<lparr>inj_team_id = 1, severity = Some ''out''\<rparr>
                  @ [\<lparr>inj_team_id = 2, severity = None\<rparr>] \<rparr>"

definition ex_sentiment :: sentiment_df where
  "ex_sentiment =
     \<lparr> sent_columns = [''team_id'', ''sentiment_score''],
       sent_rows = [\<lparr>s_team_id = 1, sentiment_score = 0\<rparr>] \<rparr>"

definition ex_sentiment_scored :: sentiment_df where
  "ex_sentiment_scored =
     \<lparr> sent_columns = [''team_id'', ''sentiment_score''],
       sent_rows = [\<lparr>s_team_id = 1, sentiment_score = 1 / 2\<rparr>,
                    \<lparr>s_team_id = 3, sentiment_score = - 1\<rparr>,
                    \<lparr>s_team_id = 1, sentiment_score = 3 / 10\<rparr>] \<rparr>"

definition ex_stats_scored :: "unit stats_df" where
  "ex_stats_scored =
     \<lparr> stats_columns = [''game_id'', ''points'', ''rebounds'', ''assists'', ''turnovers''],
       stats_rows = [(), ()] \<rparr>"

definition ex_agg_scored ::
  "unit stats_df \<Rightarrow> string list \<Rightarrow> (game_id \<rightharpoonup> ((string \<times> string) \<times> real) list) option" where
  "ex_agg_scored d cols =
     Some [6 \<mapsto> [((''points'', ''mean''), 20), ((''points'', ''sum''), 40),
                  ((''points'', ''max''), 25), ((''rebounds'', ''mean''), 6),
                  ((''rebounds'', ''sum''), 12), ((''rebounds'', ''max''), 7),
                  ((''assists'', ''mean''), 2), ((''assists'', ''sum''), 4),
                  ((''assists'', ''max''), 3), ((''turnovers'', ''mean''), 2),
                  ((''turnovers'', ''sum''), 4), ((''turnovers'', ''max''), 2)]]"

definition ex_agg_basic_scored ::
  "unit stats_df \<Rightarrow> (game_id \<rightharpoonup> ((string \<times> string) \<times> real) list) option" where
  "ex_agg_basic_scored d =
     Some [6 \<mapsto> [((''points'', ''mean''), 20), ((''points'', ''sum''), 40),
                  ((''points'', ''max''), 25), ((''rebounds'', ''mean''), 6),
                  ((''rebounds'', ''sum''), 12), ((''assists'', ''mean''), 2),
                  ((''assists'', ''sum''), 4), ((''turnovers'', ''mean''), 2),
                  ((''turnovers'', ''sum''), 4)]]"

definition ex_lookups :: lookups where
  "ex_lookups =
     \<lparr> stats_by_game = Map.empty, injuries_by_team = [1 \<mapsto> 6, 2 \<mapsto> 1],
       weather_by_game = Map.empty, sentiment_by_team = [1 \<mapsto> 0] \<rparr>"

definition ex_warm_state :: loop_state where
  "ex_warm_state =
     \<lparr> team_stats =
         [1 \<mapsto> new_team_stats\<lparr>games := 5, wins := 3, losses := 2,
                                 recent_form := [1, 0, 1, 1, 0], streak := - 1\<rparr>,
          2 \<mapsto> new_team_stats\<lparr>games := 5, wins := 2, losses := 3,
                                 recent_form := [0, 1, 0, 0, 1], streak := 1\<rparr>],
       features = [], labels = [] \<rparr>"

section \<open>Basic facts\<close>

subsection \<open>The team dictionary\<close>

lemma modify_apply:
  "modify k f ts u = (if u = k then map_option f (ts k) else ts u)"
  by (simp add: modify_def split: option.splits)

lemma init_team_apply:
  "init_team t ts u = (if u = t \<and> ts t = None then Some new_team_stats else ts u)"
  by (simp add: init_team_def split: option.splits)

lemma ensure_teams_apply:
  "ensure_teams g ts u =
     (if (u = home_team_id g \<or> u = away_team_id g) \<and> ts u = None
      then Some new_team_stats else ts u)"
  by (auto simp: ensure_teams_def init_team_apply)

lemma ensure_teams_home: "ensure_teams g ts (home_team_id g) \<noteq> None"
  by (simp add: ensure_teams_apply)

lemma ensure_teams_away: "ensure_teams g ts (away_team_id g) \<noteq> None"
  by (simp add: ensure_teams_apply)

lemma ensure_teams_eval:
  "ensure_teams g ts =
     (let t1 = (if ts (home_team_id g) = None then ts(home_team_id g \<mapsto> new_team_stats) else ts)
      in if t1 (away_team_id g) = None then t1(away_team_id g \<mapsto> new_team_stats) else t1)"
  by (simp add: ensure_teams_def init_team_def Let_def split: option.splits)

subsection \<open>The update in closed form\<close>

lemma update_team_stats_other:
  "u \<noteq> h \<Longrightarrow> u \<noteq> w \<Longrightarrow> update_team_stats h w hs as ts u = ts u"
  by (simp add: update_team_stats_def update_outcome_def modify_apply)

lemma update_team_stats_home:
  "h \<noteq> w \<Longrightarrow> update_team_stats h w hs as ts h = map_option (home_after hs as) (ts h)"
  by (cases "ts h")
     (simp_all add: update_team_stats_def update_outcome_def modify_apply home_after_def)

lemma update_team_stats_away:
  "h \<noteq> w \<Longrightarrow> update_team_stats h w hs as ts w = map_option (away_after hs as) (ts w)"
  by (cases "ts w")
     (simp_all add: update_team_stats_def update_outcome_def modify_apply away_after_def)

lemma update_team_stats_self:
  "update_team_stats h h hs as ts h = map_option (self_after hs as) (ts h)"
  by (cases "ts h")
     (simp_all add: update_team_stats_def update_outcome_def modify_apply self_after_def)

lemma update_team_stats_distinct:
  assumes "h \<noteq> w" "ts h \<noteq> None" "ts w \<noteq> None"
  shows "update_team_stats h w hs as ts =
           ts(h \<mapsto> home_after hs as (the (ts h)), w \<mapsto> away_after hs as (the (ts w)))"
proof
  fix u
  show "update_team_stats h w hs as ts u =
          (ts(h \<mapsto> home_after hs as (the (ts h)), w \<mapsto> away_after hs as (the (ts w)))) u"
    using assms
    by (cases "u = h"; cases "u = w")
       (auto simp: update_team_stats_home update_team_stats_away update_team_stats_other)
qed

lemma update_cold_basic_other:
  "u \<noteq> h \<Longrightarrow> u \<noteq> w \<Longrightarrow> update_cold_basic h w hs as ts u = ts u"
  by (simp add: update_cold_basic_def modify_apply)

lemma update_cold_basic_home:
  "h \<noteq> w \<Longrightarrow> update_cold_basic h w hs as ts h = map_option (home_after_basic hs as) (ts h)"
  by (cases "ts h") (simp_all add: update_cold_basic_def modify_apply home_after_basic_def)

lemma update_cold_basic_away:
  "h \<noteq> w \<Longrightarrow> update_cold_basic h w hs as ts w = map_option (away_after_basic hs as) (ts w)"
  by (cases "ts w") (simp_all add: update_cold_basic_def modify_apply away_after_basic_def)

lemma update_cold_basic_self:
  "update_cold_basic h h hs as ts h = map_option (self_after_basic hs as) (ts h)"
  by (cases "ts h") (simp_all add: update_cold_basic_def modify_apply self_after_basic_def)

lemma update_warm_basic_eq: "update_warm_basic = update_cold_basic"
  by (intro ext) (simp add: update_warm_basic_def update_cold_basic_def)

lemma update_cold_basic_distinct:
  assumes "h \<noteq> w" "ts h \<noteq> None" "ts w \<noteq> None"
  shows "update_cold_basic h w hs as ts =
           ts(h \<mapsto> home_after_basic hs as (the (ts h)), w \<mapsto> away_after_basic hs as (the (ts w)))"
proof
  fix u
  show "update_cold_basic h w hs as ts u =
          (ts(h \<mapsto> home_after_basic hs as (the (ts h)),
              w \<mapsto> away_after_basic hs as (the (ts w)))) u"
    using assms
    by (cases "u = h"; cases "u = w")
       (auto simp: update_cold_basic_home update_cold_basic_away update_cold_basic_other)
qed

subsection \<open>One iteration of the loop\<close>

lemma process_game_null:
  assumes "home_score g = None \<or> away_score g = None"
  shows "process_game L g st = st\<lparr>team_stats := ensure_teams g (team_stats st)\<rparr>"
  using assms
  by (auto simp: process_game_def ensure_teams_def Let_def split: option.splits)

lemma process_game_basic_null:
  assumes "home_score g = None \<or> away_score g = None"
  shows "process_game_basic L g st = Inr (st\<lparr>team_stats := ensure_teams g (team_stats st)\<rparr>)"
  using assms
  by (auto simp: process_game_basic_def ensure_teams_def Let_def split: option.splits)

lemma process_game_scored:
  assumes "home_score g = Some hs" "away_score g = Some as"
  shows "process_game L g st =
     (if warm (ensure_teams g (team_stats st)) g
      then st\<lparr> features := features st @
                  [game_features L g (the (ensure_teams g (team_stats st) (home_team_id g)))
                                     (the (ensure_teams g (team_stats st) (away_team_id g)))],
               labels := labels st @ [game_label hs as],
               team_stats := update_team_stats (home_team_id g) (away_team_id g) hs as
                               (ensure_teams g (team_stats st)) \<rparr>
      else st\<lparr> team_stats := update_team_stats (home_team_id g) (away_team_id g) hs as
                               (ensure_teams g (team_stats st)) \<rparr>)"
  using assms by (simp add: process_game_def ensure_teams_def Let_def)

lemma process_game_basic_scored:
  assumes "home_score g = Some hs" "away_score g = Some as"
  shows "process_game_basic L g st =
     (if warm (ensure_teams g (team_stats st)) g
      then (case game_features_basic L g (the (ensure_teams g (team_stats st) (home_team_id g)))
                                         (the (ensure_teams g (team_stats st) (away_team_id g))) of
              Inl e \<Rightarrow> Inl e
            | Inr v \<Rightarrow>
                Inr (st\<lparr> features := features st @ [v],
                         labels := labels st @ [game_label hs as],
                         team_stats := update_cold_basic (home_team_id g) (away_team_id g) hs as
                                         (ensure_teams g (team_stats st)) \<rparr>))
      else Inr (st\<lparr> team_stats := update_cold_basic (home_team_id g) (away_team_id g) hs as
                                    (ensure_teams g (team_stats st)) \<rparr>))"
  using assms
  by (auto simp: process_game_basic_def ensure_teams_def Let_def warm_def update_warm_basic_eq
           split: sum.splits)

subsection \<open>The loop and the emitted pairs\<close>

lemma game_loop_emissions:
  "features (game_loop L gs st) =
     features st @ map (\<lambda>(g, a, b). game_features L g a b)
                       (emissions update_team_stats gs (team_stats st))
   \<and> labels (game_loop L gs st) =
     labels st @ map (\<lambda>(g, a, b). game_label (the (home_score g)) (the (away_score g)))
                     (emissions update_team_stats gs (team_stats st))"
proof (induction gs arbitrary: st)
  case Nil
  show ?case by simp
next
  case (Cons g gs)
  show ?case
  proof (cases "home_score g = None \<or> away_score g = None")
    case True
    then show ?thesis
      using Cons.IH [of "process_game L g st"]
      by (auto simp: process_game_null split: option.splits)
  next
    case False
    then obtain hs as where sc: "home_score g = Some hs" "away_score g = Some as"
      by auto
    show ?thesis
      using Cons.IH [of "process_game L g st"]
      by (simp add: sc process_game_scored)
  qed
qed

lemma game_loop_basic_emissions:
  assumes "game_loop_basic L gs st = Inr st'"
  shows "map Inr (drop (length (features st)) (features st')) =
           map (\<lambda>(g, a, b). game_features_basic L g a b)
               (emissions update_cold_basic gs (team_stats st))
       \<and> take (length (features st)) (features st') = features st
       \<and> labels st' =
           labels st @ map (\<lambda>(g, a, b). game_label (the (home_score g)) (the (away_score g)))
                           (emissions update_cold_basic gs (team_stats st))"
  using assms
proof (induction gs arbitrary: st)
  case Nil
  then show ?case by simp
next
  case (Cons g gs)
  from Cons.prems obtain st1 where
    st1: "process_game_basic L g st = Inr st1" and rest: "game_loop_basic L gs st1 = Inr st'"
    by (auto split: sum.splits)
  note IH = Cons.IH [OF rest]
  show ?case
  proof (cases "home_score g = None \<or> away_score g = None")
    case True
    with st1 have "st1 = st\<lparr>team_stats := ensure_teams g (team_stats st)\<rparr>"
      by (simp add: process_game_basic_null)
    with IH True show ?thesis
      by (auto split: option.splits)
  next
    case False
    then obtain hs as where sc: "home_score g = Some hs" "away_score g = Some as"
      by auto
    show ?thesis
    proof (cases "warm (ensure_teams g (team_stats st)) g")
      case False
      with st1 sc have "st1 = st\<lparr> team_stats := update_cold_basic (home_team_id g) (away_team_id g)
                                     hs as (ensure_teams g (team_stats st)) \<rparr>"
        by (simp add: process_game_basic_scored)
      with IH sc False show ?thesis by simp
    next
      case True
      with st1 sc obtain v where
        v: "game_features_basic L g (the (ensure_teams g (team_stats st) (home_team_id g)))
              (the (ensure_teams g (team_stats st) (away_team_id g))) = Inr v"
        and st1_eq: "st1 = st\<lparr> features := features st @ [v],
                         labels := labels st @ [game_label hs as],
                         team_stats := update_cold_basic (home_team_id g) (away_team_id g) hs as
                                         (ensure_teams g (team_stats st)) \<rparr>"
        by (auto simp: process_game_basic_scored split: sum.splits)
      have len: "length (features st1) = Suc (length (features st))"
        by (simp add: st1_eq)
      from IH have tk: "take (Suc (length (features st))) (features st') = features st @ [v]"
        by (simp add: st1_eq)
      then have ge: "length (features st') \<ge> Suc (length (features st))"
        by (metis length_append_singleton length_take min.cobounded1)
      have tk0: "take (length (features st)) (features st') = features st"
        using tk by (metis butlast_snoc butlast_take diff_Suc_1 ge)
      have nth: "features st' ! length (features st) = v"
        using tk ge by (metis lessI nth_append_length nth_take)
      have dr: "drop (length (features st)) (features st') =
                  v # drop (Suc (length (features st))) (features st')"
        using ge nth by (metis Cons_nth_drop_Suc Suc_le_lessD)
      show ?thesis
        using IH sc True v tk0 dr
        by (simp add: st1_eq)
    qed
  qed
qed

lemma game_loop_append:
  "game_loop L (gs @ hs) st = game_loop L hs (game_loop L gs st)"
  by (induction gs arbitrary: st) simp_all

subsection \<open>The invariant\<close>

lemma length_last_n: "length (last_n n xs) = min n (length xs)"
  by (simp add: last_n_def)

lemma consistent_new: "consistent new_team_stats"
  by (simp add: consistent_def new_team_stats_def)

lemma consistent_home_after: "consistent a \<Longrightarrow> consistent (home_after hs as a)"
  by (auto simp: consistent_def home_after_def length_last_n)

lemma consistent_away_after: "consistent a \<Longrightarrow> consistent (away_after hs as a)"
  by (auto simp: consistent_def away_after_def length_last_n)

lemma consistent_self_after: "consistent a \<Longrightarrow> consistent (self_after hs as a)"
  by (auto simp: consistent_def self_after_def length_last_n)

lemma consistent_home_after_basic: "consistent a \<Longrightarrow> consistent (home_after_basic hs as a)"
  by (auto simp: consistent_def home_after_basic_def length_last_n)

lemma consistent_away_after_basic: "consistent a \<Longrightarrow> consistent (away_after_basic hs as a)"
  by (auto simp: consistent_def away_after_basic_def length_last_n)

lemma consistent_self_after_basic: "consistent a \<Longrightarrow> consistent (self_after_basic hs as a)"
  by (auto simp: consistent_def self_after_basic_def length_last_n)

lemma ensure_teams_consistent:
  assumes "\<forall>t s. ts t = Some s \<longrightarrow> consistent s"
  shows "\<forall>t s. ensure_teams g ts t = Some s \<longrightarrow> consistent s"
  using assms by (auto simp: ensure_teams_apply consistent_new split: if_splits)

lemma update_team_stats_consistent:
  assumes "\<forall>t s. ts t = Some s \<longrightarrow> consistent s"
  shows "\<forall>t s. update_team_stats h w hs as ts t = Some s \<longrightarrow> consistent s"
proof (intro allI impI)
  fix t s
  assume u: "update_team_stats h w hs as ts t = Some s"
  show "consistent s"
  proof (cases "h = w")
    case True
    show ?thesis
    proof (cases "t = h")
      case True
      with u \<open>h = w\<close> assms show ?thesis
        by (auto simp: update_team_stats_self consistent_self_after)
    next
      case False
      with u \<open>h = w\<close> assms show ?thesis
        by (simp add: update_team_stats_other)
    qed
  next
    case False
    consider "t = h" | "t = w" | "t \<noteq> h" "t \<noteq> w" by blast
    then show ?thesis
    proof cases
      case 1
      with u False assms show ?thesis
        by (auto simp: update_team_stats_home consistent_home_after)
    next
      case 2
      with u False assms show ?thesis
        by (auto simp: update_team_stats_away consistent_away_after)
    next
      case 3
      with u assms show ?thesis
        by (simp add: update_team_stats_other)
    qed
  qed
qed

lemma update_cold_basic_consistent:
  assumes "\<forall>t s. ts t = Some s \<longrightarrow> consistent s"
  shows "\<forall>t s. update_cold_basic h w hs as ts t = Some s \<longrightarrow> consistent s"
proof (intro allI impI)
  fix t s
  assume u: "update_cold_basic h w hs as ts t = Some s"
  show "consistent s"
  proof (cases "h = w")
    case True
    show ?thesis
    proof (cases "t = h")
      case True
      with u \<open>h = w\<close> assms show ?thesis
        by (auto simp: update_cold_basic_self consistent_self_after_basic)
    next
      case False
      with u \<open>h = w\<close> assms show ?thesis
        by (simp add: update_cold_basic_other)
    qed
  next
    case False
    consider "t = h" | "t = w" | "t \<noteq> h" "t \<noteq> w" by blast
    then show ?thesis
    proof cases
      case 1
      with u False assms show ?thesis
        by (auto simp: update_cold_basic_home consistent_home_after_basic)
    next
      case 2
      with u False assms show ?thesis
        by (auto simp: update_cold_basic_away consistent_away_after_basic)
    next
      case 3
      with u assms show ?thesis
        by (simp add: update_cold_basic_other)
    qed
  qed
qed

lemma process_game_consistent:
  assumes "\<forall>t s. team_stats st t = Some s \<longrightarrow> consistent s"
  shows "\<forall>t s. team_stats (process_game L g st) t = Some s \<longrightarrow> consistent s"
proof (cases "home_score g = None \<or> away_score g = None")
  case True
  then show ?thesis
    using ensure_teams_consistent [OF assms, of g] by (simp add: process_game_null)
next
  case False
  then obtain hs as where sc: "home_score g = Some hs" "away_score g = Some as"
    by auto
  show ?thesis
    using update_team_stats_consistent [OF ensure_teams_consistent [OF assms, of g]]
    by (simp add: process_game_scored sc)
qed

lemma game_loop_consistent:
  assumes "\<forall>t s. team_stats st t = Some s \<longrightarrow> consistent s"
  shows "\<forall>t s. team_stats (game_loop L gs st) t = Some s \<longrightarrow> consistent s"
  using assms
proof (induction gs arbitrary: st)
  case Nil
  then show ?case by simp
next
  case (Cons g gs)
  show ?case
    using Cons.IH [OF process_game_consistent [OF Cons.prems]] by simp
qed

lemma process_game_basic_consistent:
  assumes "\<forall>t s. team_stats st t = Some s \<longrightarrow> consistent s"
      and "process_game_basic L g st = Inr st'"
  shows "\<forall>t s. team_stats st' t = Some s \<longrightarrow> consistent s"
proof (cases "home_score g = None \<or> away_score g = None")
  case True
  then show ?thesis
    using ensure_teams_consistent [OF assms(1), of g] assms(2)
    by (auto simp: process_game_basic_null)
next
  case False
  then obtain hs as where sc: "home_score g = Some hs" "away_score g = Some as"
    by auto
  have "team_stats st' = update_cold_basic (home_team_id g) (away_team_id g) hs as
                           (ensure_teams g (team_stats st))"
    using assms(2) by (auto simp: process_game_basic_scored sc split: if_splits sum.splits)
  then show ?thesis
    using update_cold_basic_consistent [OF ensure_teams_consistent [OF assms(1), of g]]
    by simp
qed

lemma game_loop_basic_consistent:
  assumes "\<forall>t s. team_stats st t = Some s \<longrightarrow> consistent s"
      and "game_loop_basic L gs st = Inr st'"
  shows "\<forall>t s. team_stats st' t = Some s \<longrightarrow> consistent s"
  using assms
proof (induction gs arbitrary: st)
  case Nil
  then show ?case by simp
next
  case (Cons g gs)
  from Cons.prems(2) obtain st1 where
    st1: "process_game_basic L g st = Inr st1" and rest: "game_loop_basic L gs st1 = Inr st'"
    by (auto split: sum.splits)
  show ?case
    using Cons.IH [OF process_game_basic_consistent [OF Cons.prems(1) st1] rest] .
qed

lemma init_state_consistent: "\<forall>t s. team_stats init_state t = Some s \<longrightarrow> consistent s"
  by (simp add: init_state_def)

lemma emissions_consistent:
  assumes upd: "\<And>h w hs as ts. \<forall>t s. ts t = Some s \<longrightarrow> consistent s
                  \<Longrightarrow> \<forall>t s. upd h w hs as ts t = Some s \<longrightarrow> consistent s"
      and "\<forall>t s. ts t = Some s \<longrightarrow> consistent s"
      and "(g, a, b) \<in> set (emissions upd gs ts)"
  shows "consistent a \<and> consistent b \<and> games a \<ge> 5 \<and> games b \<ge> 5 \<and> g \<in> set gs
         \<and> home_score g \<noteq> None \<and> away_score g \<noteq> None"
  using assms(2,3)
proof (induction gs arbitrary: ts)
  case Nil
  then show ?case by simp
next
  case (Cons x gs)
  note ens = ensure_teams_consistent [OF Cons.prems(1), of x]
  show ?case
  proof (cases "home_score x = None \<or> away_score x = None")
    case True
    with Cons.prems(2) have "(g, a, b) \<in> set (emissions upd gs (ensure_teams x ts))"
      by (auto split: option.splits)
    from Cons.IH [OF ens this] show ?thesis by simp
  next
    case False
    then obtain hs as where sc: "home_score x = Some hs" "away_score x = Some as"
      by auto
    from Cons.prems(2) sc consider
        (here) "warm (ensure_teams x ts) x" "g = x"
               "a = the (ensure_teams x ts (home_team_id x))"
               "b = the (ensure_teams x ts (away_team_id x))"
      | (later) "(g, a, b) \<in> set (emissions upd gs
                   (upd (home_team_id x) (away_team_id x) hs as (ensure_teams x ts)))"
      by (auto split: if_splits)
    then show ?thesis
    proof cases
      case here
      obtain a' where a': "ensure_teams x ts (home_team_id x) = Some a'"
        using ensure_teams_home [of x ts] by auto
      obtain b' where b': "ensure_teams x ts (away_team_id x) = Some b'"
        using ensure_teams_away [of x ts] by auto
      show ?thesis
        using here ens a' b' sc by (auto simp: warm_def)
    next
      case later
      from Cons.IH [OF upd [OF ens] later] show ?thesis by simp
    qed
  qed
qed

subsection \<open>Entries of the feature vector\<close>

lemma game_features_length: "length (game_features L g a b) = 23"
  by (simp add: game_features_def player_features_def weather_features_def Let_def)

lemma game_features_nth:
  "game_features L g a b ! 6 = form_feature (recent_form a)"
  "game_features L g a b ! 7 = form_feature (recent_form b)"
  "game_features L g a b ! 13 = injury_feature L (home_team_id g)"
  "game_features L g a b ! 14 = injury_feature L (away_team_id g)"
  "game_features L g a b ! 17 = sentiment_feature L (home_team_id g)"
  "game_features L g a b ! 18 = sentiment_feature L (away_team_id g)"
  by (simp_all add: game_features_def player_features_def weather_features_def Let_def nth_append)

lemma game_features_basic_nth:
  assumes "game_features_basic L g a b = Inr v"
  shows "length v = 23"
    and "v ! 6 = form_feature_basic (recent_form a)"
    and "v ! 7 = form_feature_basic (recent_form b)"
    and "v ! 13 = injury_feature_basic L (home_team_id g)"
    and "v ! 14 = injury_feature_basic L (away_team_id g)"
    and "v ! 17 = sentiment_feature_basic L (home_team_id g)"
    and "v ! 18 = sentiment_feature_basic L (away_team_id g)"
  using assms
  by (auto simp: game_features_basic_def weather_features_basic_def nth_append split: sum.splits)


lemma injury_feature_build:
  "injury_feature (build_lookups agg sdf idf wdf sndf) t =
     min (real (if ''team_id'' \<in> set (inj_columns idf)
                then length (filter (\<lambda>r. inj_team_id r = t) (inj_rows idf)) else 0) / 5) 1"
  by (auto simp: injury_feature_def build_lookups_def build_injuries_by_team_def group_size_def
        Let_def)

lemma sentiment_lookup_closed:
  "sentiment_by_team (build_lookups agg sdf idf wdf sndf) t =
     (let xs = (if ''team_id'' \<in> set (sent_columns sndf)
                   \<and> ''sentiment_score'' \<in> set (sent_columns sndf)
                then map sentiment_score (filter (\<lambda>r. s_team_id r = t) (sent_rows sndf))
                else [])
      in if xs = [] then None else Some (sum_list xs / real (length xs)))"
  by (auto simp: build_lookups_def build_sentiment_by_team_def group_mean_def Let_def)

lemma injuries_lookup_closed:
  "injuries_by_team (build_lookups agg sdf idf wdf sndf) t =
     (let n = (if ''team_id'' \<in> set (inj_columns idf)
               then length (filter (\<lambda>r. inj_team_id r = t) (inj_rows idf)) else 0)
      in if n = 0 then None else Some n)"
  by (auto simp: build_lookups_def build_injuries_by_team_def group_size_def Let_def)

lemma engineer_features_emissions:
  "engineer_features agg gs sdf idf wdf sndf =
     (map (\<lambda>(g, a, b). game_features (build_lookups agg sdf idf wdf sndf) g a b)
          (emissions update_team_stats gs Map.empty),
      map (\<lambda>(g, a, b). game_label (the (home_score g)) (the (away_score g)))
          (emissions update_team_stats gs Map.empty))"
  using game_loop_emissions [of "build_lookups agg sdf idf wdf sndf" gs init_state]
  by (simp add: engineer_features_def Let_def init_state_def)

lemma engineer_features_basic_emissions:
  assumes "engineer_features_basic agg gs sdf idf wdf sndf = Inr (X, y)"
  shows "\<exists>L. build_lookups_basic agg sdf idf wdf sndf = Inr L
           \<and> map Inr X = map (\<lambda>(g, a, b). game_features_basic L g a b)
                            (emissions update_cold_basic gs Map.empty)
           \<and> y = map (\<lambda>(g, a, b). game_label (the (home_score g)) (the (away_score g)))
                     (emissions update_cold_basic gs Map.empty)"
proof -
  from assms obtain L st where
    L: "build_lookups_basic agg sdf idf wdf sndf = Inr L"
    and st: "game_loop_basic L gs init_state = Inr st"
    and Xy: "X = features st" "y = labels st"
    by (auto simp: engineer_features_basic_def split: sum.splits)
  from game_loop_basic_emissions [OF st] show ?thesis
    by (simp add: L Xy init_state_def)
qed

lemma emissions_warm:
  assumes "(g, a, b) \<in> set (emissions update_team_stats gs Map.empty)"
  shows "consistent a \<and> consistent b \<and> games a \<ge> 5 \<and> games b \<ge> 5 \<and> g \<in> set gs
         \<and> home_score g \<noteq> None \<and> away_score g \<noteq> None"
  by (rule emissions_consistent [OF update_team_stats_consistent _ assms]) simp_all

lemma emissions_basic_warm:
  assumes "(g, a, b) \<in> set (emissions update_cold_basic gs Map.empty)"
  shows "consistent a \<and> consistent b \<and> games a \<ge> 5 \<and> games b \<ge> 5 \<and> g \<in> set gs
         \<and> home_score g \<noteq> None \<and> away_score g \<noteq> None"
  by (rule emissions_consistent [OF update_cold_basic_consistent _ assms]) simp_all

lemmas run_eval =
  process_game_scored process_game_basic_scored ensure_teams_eval
  update_team_stats_distinct update_cold_basic_distinct
  home_after_def away_after_def home_after_basic_def away_after_basic_def
  warm_def new_team_stats_def streak_win_def streak_loss_def last_n_def
  ex_game_def ex_games_def ex_warm_state_def init_state_def Let_def

lemmas feature_eval =
  game_features_def form_feature_def np_mean_def player_features_def injury_feature_def
  weather_features_def sentiment_feature_def game_label_def

subsection \<open>The example runs\<close>

lemmas lookup_eval =
  build_lookups_def build_stats_by_game_def build_injuries_by_team_def build_weather_by_game_def
  build_sentiment_by_team_def group_size_def group_mean_def group_count_def
  build_lookups_basic_def build_weather_by_game_basic_def
  ex_agg_def ex_agg_basic_def ex_stats_def ex_injuries_def ex_sentiment_def ex_lookups_def

lemmas feature_basic_eval =
  game_features_basic_def form_feature_basic_def player_feature_basic_def
  injury_feature_basic_def weather_features_basic_def sentiment_feature_basic_def

lemma ex_run:
  "engineer_features ex_agg ex_games ex_stats ex_injuries [] ex_sentiment =
     ([[1, 0, 498 / 5, 458 / 5, 458 / 5, 498 / 5, 1, 0, 1, 8, - 8, 0, 0, 1, 1 / 5, 18 / 25, 1 / 6,
        0, 0, 3 / 4, 2 / 7, 11 / 12, 1]], [0])"
  by (simp add: engineer_features_def lookup_eval run_eval feature_eval)

lemma ex_run_basic:
  "engineer_features_basic ex_agg_basic ex_games ex_stats ex_injuries [] ex_sentiment =
     Inr ([[1, 0, 498 / 5, 458 / 5, 458 / 5, 498 / 5, 1, 0, 1, 8, - 8, 0, 0, 6, 0, 18 / 25,
            17 / 100, 0, 0, 3 / 4, 2 / 7, 11 / 12, 1]], [0])"
  by (simp add: engineer_features_basic_def lookup_eval run_eval feature_basic_eval np_mean_def
        game_label_def)

lemma ex_emissions:
  "emissions update_team_stats ex_games Map.empty =
     [(ex_game 6 1 2 90 90,
       \<lparr> games = 5, wins = 5, losses = 0, points_for = 498, points_against = 458,
         recent_form = [1, 1, 1, 1, 1], home_games = 3, home_wins = 3, away_games = 2,
         away_wins = 2, streak = 5, rest_days = 0 \<rparr>,
       \<lparr> games = 5, wins = 0, losses = 5, points_for = 458, points_against = 498,
         recent_form = [0, 0, 0, 0, 0], home_games = 2, home_wins = 0, away_games = 3,
         away_wins = 0, streak = - 5, rest_days = 0 \<rparr>)]"
  by (simp add: run_eval)

lemma ex_emissions_basic:
  "emissions update_cold_basic ex_games Map.empty =
     [(ex_game 6 1 2 90 90,
       \<lparr> games = 5, wins = 5, losses = 0, points_for = 498, points_against = 458,
         recent_form = [1, 1, 1, 1, 1], home_games = 0, home_wins = 0, away_games = 0,
         away_wins = 0, streak = 0, rest_days = 0 \<rparr>,
       \<lparr> games = 5, wins = 0, losses = 5, points_for = 458, points_against = 498,
         recent_form = [0, 0, 0, 0, 0], home_games = 0, home_wins = 0, away_games = 0,
         away_wins = 0, streak = 0, rest_days = 0 \<rparr>)]"
  by (simp add: run_eval)


lemma ex_run7:
  "engineer_features ex_agg ex_games7 ex_stats ex_injuries [] ex_sentiment =
     ([[1, 0, 498 / 5, 458 / 5, 458 / 5, 498 / 5, 1, 0, 1, 8, - 8, 0, 0, 1, 1 / 5, 18 / 25, 1 / 6,
        0, 0, 3 / 4, 2 / 7, 11 / 12, 1],
       [5 / 6, 1 / 6, 98, 274 / 3, 274 / 3, 98, 4 / 5, 1 / 5, 2 / 3, 20 / 3, - (20 / 3), 0, 0, 1,
        1 / 5, 18 / 25, 1 / 6, 0, 0, 3 / 4, 2 / 7, 11 / 12, 1]],
      [0, 1])"
  by (simp add: engineer_features_def lookup_eval run_eval feature_eval ex_games7_def)

lemma ex_emissions7:
  "map fst (emissions update_team_stats ex_games7 Map.empty) =
     [ex_game 6 1 2 90 90, ex_game 7 1 2 80 70]"
  by (simp add: run_eval ex_games7_def)

lemma ex_run7_scored:
  "engineer_features ex_agg ex_games7 ex_stats ex_injuries [] ex_sentiment_scored =
     ([[1, 0, 498 / 5, 458 / 5, 458 / 5, 498 / 5, 1, 0, 1, 8, - 8, 0, 0, 1, 1 / 5, 18 / 25, 1 / 6,
        tanh (2 / 5), 0, 3 / 4, 2 / 7, 11 / 12, 1],
       [5 / 6, 1 / 6, 98, 274 / 3, 274 / 3, 98, 4 / 5, 1 / 5, 2 / 3, 20 / 3, - (20 / 3), 0, 0, 1,
        1 / 5, 18 / 25, 1 / 6, tanh (2 / 5), 0, 3 / 4, 2 / 7, 11 / 12, 1]],
      [0, 1])"
  by (simp add: engineer_features_def lookup_eval run_eval feature_eval ex_games7_def
        ex_sentiment_scored_def)

lemma ex_run_scored:
  "engineer_features ex_agg_scored ex_games ex_stats_scored ex_injuries [] ex_sentiment =
     ([[1, 0, 498 / 5, 458 / 5, 458 / 5, 498 / 5, 1, 0, 1, 8, - 8, 1, 1 / 5, 1, 1 / 5, 18 / 25,
        1 / 6, 0, 0, 3 / 4, 2 / 7, 11 / 12, 1]], [0])"
  by (simp add: engineer_features_def lookup_eval run_eval feature_eval ex_agg_scored_def
        ex_stats_scored_def)

lemma ex_run_basic_scored:
  "engineer_features_basic ex_agg_basic_scored ex_games ex_stats_scored ex_injuries []
     ex_sentiment = Inl TypeError"
  by (simp add: engineer_features_basic_def lookup_eval run_eval feature_basic_eval np_mean_def
        game_label_def ex_agg_basic_scored_def ex_stats_scored_def)

section \<open>The warm-up gate\<close>

text \<open>
  One iteration on a game with both scores present.  Let \<open>h\<close> and \<open>a\<close> be the home and
  away dictionaries as read before the update; their \<open>games\<close> counters are those of the
  state before the game (0 for a team not seen before).  The complete pipeline appends a
  pair to the features and labels if and only if both counters are at least 5, and
  otherwise leaves both lists unchanged.  In either case the team dictionary becomes
  \<open>update_team_stats\<close> of the store, which increments the \<open>games\<close> counter of both
  teams.  The cell does the same below the threshold; at or above it, it appends the pair
  when \<open>game_features_basic\<close> returns and raises when that raises.
\<close>

theorem warm_up_gate:
  assumes "home_score g = Some hs" "away_score g = Some as"
      and "ts = ensure_teams g (team_stats st)"
      and "h = the (ts (home_team_id g))" "a = the (ts (away_team_id g))"
  shows "games h = (case team_stats st (home_team_id g) of Some s \<Rightarrow> games s | None \<Rightarrow> 0)
       \<and> games a = (case team_stats st (away_team_id g) of Some s \<Rightarrow> games s | None \<Rightarrow> 0)
       \<and> (length (features (process_game L g st)) = length (features st) + 1
            \<longleftrightarrow> 5 \<le> games h \<and> 5 \<le> games a)
       \<and> (5 \<le> games h \<and> 5 \<le> games a \<longrightarrow>
            features (process_game L g st) = features st @ [game_features L g h a]
            \<and> labels (process_game L g st) = labels st @ [game_label hs as])
       \<and> (games h < 5 \<or> games a < 5 \<longrightarrow>
            features (process_game L g st) = features st
            \<and> labels (process_game L g st) = labels st)
       \<and> team_stats (process_game L g st)
            = update_team_stats (home_team_id g) (away_team_id g) hs as ts
       \<and> games (the (team_stats (process_game L g st) (home_team_id g)))
            = games h + (if home_team_id g = away_team_id g then 2 else 1)
       \<and> games (the (team_stats (process_game L g st) (away_team_id g)))
            = games a + (if home_team_id g = away_team_id g then 2 else 1)
       \<and> (games h < 5 \<or> games a < 5 \<longrightarrow>
            process_game_basic L' g st =
              Inr (st\<lparr> team_stats :=
                         update_cold_basic (home_team_id g) (away_team_id g) hs as ts \<rparr>))
       \<and> (5 \<le> games h \<and> 5 \<le> games a \<longrightarrow>
            (case game_features_basic L' g h a of
               Inr v \<Rightarrow>
                 process_game_basic L' g st =
                   Inr (st\<lparr> features := features st @ [v],
                            labels := labels st @ [game_label hs as],
                            team_stats :=
                              update_cold_basic (home_team_id g) (away_team_id g) hs as ts \<rparr>)
             | Inl e \<Rightarrow> process_game_basic L' g st = Inl e))
       \<and> games (the (update_cold_basic (home_team_id g) (away_team_id g) hs as ts (home_team_id g)))
            = games h + (if home_team_id g = away_team_id g then 2 else 1)
       \<and> games (the (update_cold_basic (home_team_id g) (away_team_id g) hs as ts (away_team_id g)))
            = games a + (if home_team_id g = away_team_id g then 2 else 1)"
proof -
  obtain h' where h': "ts (home_team_id g) = Some h'"
    using ensure_teams_home [of g "team_stats st"] assms(3) by auto
  obtain a' where a': "ts (away_team_id g) = Some a'"
    using ensure_teams_away [of g "team_stats st"] assms(3) by auto
  have hh: "h = h'" and aa: "a = a'"
    using assms(4,5) h' a' by simp_all
  have pre: "games h = (case team_stats st (home_team_id g) of Some s \<Rightarrow> games s | None \<Rightarrow> 0)"
            "games a = (case team_stats st (away_team_id g) of Some s \<Rightarrow> games s | None \<Rightarrow> 0)"
    using assms(3,4,5)
    by (auto simp: ensure_teams_apply new_team_stats_def split: option.splits)
  have w: "warm ts g \<longleftrightarrow> 5 \<le> games h \<and> 5 \<le> games a"
    by (simp add: warm_def assms(4,5))
  have pg: "process_game L g st =
     (if warm ts g
      then st\<lparr> features := features st @ [game_features L g h a],
               labels := labels st @ [game_label hs as],
               team_stats := update_team_stats (home_team_id g) (away_team_id g) hs as ts \<rparr>
      else st\<lparr> team_stats := update_team_stats (home_team_id g) (away_team_id g) hs as ts \<rparr>)"
    unfolding assms(4,5) assms(3) by (rule process_game_scored [OF assms(1,2)])
  have pb: "process_game_basic L' g st =
     (if warm ts g
      then (case game_features_basic L' g h a of
              Inl e \<Rightarrow> Inl e
            | Inr v \<Rightarrow>
                Inr (st\<lparr> features := features st @ [v],
                         labels := labels st @ [game_label hs as],
                         team_stats := update_cold_basic (home_team_id g) (away_team_id g) hs as ts \<rparr>))
      else Inr (st\<lparr> team_stats := update_cold_basic (home_team_id g) (away_team_id g) hs as ts \<rparr>))"
    unfolding assms(4,5) assms(3) by (rule process_game_basic_scored [OF assms(1,2)])
  have gh: "games (the (update_team_stats (home_team_id g) (away_team_id g) hs as ts (home_team_id g)))
              = games h + (if home_team_id g = away_team_id g then 2 else 1)"
    using h' hh
    by (auto simp: update_team_stats_self update_team_stats_home self_after_def home_after_def)
  have ga: "games (the (update_team_stats (home_team_id g) (away_team_id g) hs as ts (away_team_id g)))
              = games a + (if home_team_id g = away_team_id g then 2 else 1)"
    using a' aa h' hh
    by (auto simp: update_team_stats_self update_team_stats_away self_after_def away_after_def)
  have bh: "games (the (update_cold_basic (home_team_id g) (away_team_id g) hs as ts (home_team_id g)))
              = games h + (if home_team_id g = away_team_id g then 2 else 1)"
    using h' hh
    by (auto simp: update_cold_basic_self update_cold_basic_home self_after_basic_def
          home_after_basic_def)
  have ba: "games (the (update_cold_basic (home_team_id g) (away_team_id g) hs as ts (away_team_id g)))
              = games a + (if home_team_id g = away_team_id g then 2 else 1)"
    using a' aa h' hh
    by (auto simp: update_cold_basic_self update_cold_basic_away self_after_basic_def
          away_after_basic_def)
  have ts': "team_stats (process_game L g st)
               = update_team_stats (home_team_id g) (away_team_id g) hs as ts"
    by (simp add: pg)
  have emit: "5 \<le> games h \<and> 5 \<le> games a \<longrightarrow>
            features (process_game L g st) = features st @ [game_features L g h a]
            \<and> labels (process_game L g st) = labels st @ [game_label hs as]"
    using w by (simp add: pg)
  have skip: "games h < 5 \<or> games a < 5 \<longrightarrow>
            features (process_game L g st) = features st
            \<and> labels (process_game L g st) = labels st"
    using w by (auto simp: pg)
  have iff: "length (features (process_game L g st)) = length (features st) + 1
            \<longleftrightarrow> 5 \<le> games h \<and> 5 \<le> games a"
    using w by (simp add: pg)
  have bskip: "games h < 5 \<or> games a < 5 \<longrightarrow>
            process_game_basic L' g st =
              Inr (st\<lparr> team_stats :=
                         update_cold_basic (home_team_id g) (away_team_id g) hs as ts \<rparr>)"
    using w by (auto simp: pb)
  have bemit: "5 \<le> games h \<and> 5 \<le> games a \<longrightarrow>
            (case game_features_basic L' g h a of
               Inr v \<Rightarrow>
                 process_game_basic L' g st =
                   Inr (st\<lparr> features := features st @ [v],
                            labels := labels st @ [game_label hs as],
                            team_stats :=
                              update_cold_basic (home_team_id g) (away_team_id g) hs as ts \<rparr>)
             | Inl e \<Rightarrow> process_game_basic L' g st = Inl e)"
    using w by (auto simp: pb split: sum.splits)
  show ?thesis
    using pre iff emit skip ts' gh ga bskip bemit bh ba
    by (simp only: ts' simp_thms)
qed


theorem warm_up_gate_witness:
  "home_score (ex_game 6 1 2 90 90) = Some 90 \<and> away_score (ex_game 6 1 2 90 90) = Some 90
   \<and> 5 \<le> games (the (ensure_teams (ex_game 6 1 2 90 90) (team_stats ex_warm_state) 1))
   \<and> 5 \<le> games (the (ensure_teams (ex_game 6 1 2 90 90) (team_stats ex_warm_state) 2))
   \<and> features (process_game ex_lookups (ex_game 6 1 2 90 90) ex_warm_state)
        = features ex_warm_state
          @ [game_features ex_lookups (ex_game 6 1 2 90 90)
               (the (ensure_teams (ex_game 6 1 2 90 90) (team_stats ex_warm_state) 1))
               (the (ensure_teams (ex_game 6 1 2 90 90) (team_stats ex_warm_state) 2))]
   \<and> labels (process_game ex_lookups (ex_game 6 1 2 90 90) ex_warm_state)
        = labels ex_warm_state @ [0]
   \<and> games (the (team_stats (process_game ex_lookups (ex_game 6 1 2 90 90) ex_warm_state) 1)) = 6
   \<and> home_score (ex_game 1 1 2 100 90) = Some 100 \<and> away_score (ex_game 1 1 2 100 90) = Some 90
   \<and> games (the (ensure_teams (ex_game 1 1 2 100 90) (team_stats init_state) 1)) < 5
   \<and> features (process_game ex_lookups (ex_game 1 1 2 100 90) init_state) = features init_state
   \<and> labels (process_game ex_lookups (ex_game 1 1 2 100 90) init_state) = labels init_state
   \<and> games (the (team_stats (process_game ex_lookups (ex_game 1 1 2 100 90) init_state) 1)) = 1
   \<and> games (the (team_stats (process_game ex_lookups (ex_game 1 1 2 100 90) init_state) 2)) = 1"
  using warm_up_gate [of "ex_game 6 1 2 90 90" 90 90
          "ensure_teams (ex_game 6 1 2 90 90) (team_stats ex_warm_state)" ex_warm_state
          "the (ensure_teams (ex_game 6 1 2 90 90) (team_stats ex_warm_state) 1)"
          "the (ensure_teams (ex_game 6 1 2 90 90) (team_stats ex_warm_state) 2)"
          ex_lookups ex_lookups]
        warm_up_gate [of "ex_game 1 1 2 100 90" 100 90
          "ensure_teams (ex_game 1 1 2 100 90) (team_stats init_state)" init_state
          "the (ensure_teams (ex_game 1 1 2 100 90) (team_stats init_state) 1)"
          "the (ensure_teams (ex_game 1 1 2 100 90) (team_stats init_state) 2)"
          ex_lookups ex_lookups]
  by (simp add: run_eval game_label_def)

text \<open>
  Claim C1.  The complete pipeline emits a pair exactly when both counters are at least
  5, as shown above.  The cell does not.  In the example run with a player-statistics
  aggregate for game 6, both teams have played five games when game 6 is read (the only
  game of the run that passes the threshold), and the complete pipeline emits its row
  with label 0.  The cell subscripts the aggregate at lines 90-91, raises the
  \<^verbatim>\<open>TypeError\<close> and returns no pair at all; the same happens in one iteration from a
  state in which both teams have five games.
\<close>

theorem warm_up_gate_cell_failure:
  "emissions update_cold_basic ex_games Map.empty =
     [(ex_game 6 1 2 90 90,
       \<lparr> games = 5, wins = 5, losses = 0, points_for = 498, points_against = 458,
         recent_form = [1, 1, 1, 1, 1], home_games = 0, home_wins = 0, away_games = 0,
         away_wins = 0, streak = 0, rest_days = 0 \<rparr>,
       \<lparr> games = 5, wins = 0, losses = 5, points_for = 458, points_against = 498,
         recent_form = [0, 0, 0, 0, 0], home_games = 0, home_wins = 0, away_games = 0,
         away_wins = 0, streak = 0, rest_days = 0 \<rparr>)]
   \<and> engineer_features ex_agg_scored ex_games ex_stats_scored ex_injuries [] ex_sentiment =
       ([[1, 0, 498 / 5, 458 / 5, 458 / 5, 498 / 5, 1, 0, 1, 8, - 8, 1, 1 / 5, 1, 1 / 5, 18 / 25,
          1 / 6, 0, 0, 3 / 4, 2 / 7, 11 / 12, 1]], [0])
   \<and> engineer_features_basic ex_agg_basic_scored ex_games ex_stats_scored ex_injuries []
         ex_sentiment = Inl TypeError
   \<and> games (the (team_stats ex_warm_state 1)) = 5 \<and> games (the (team_stats ex_warm_state 2)) = 5
   \<and> length (features (process_game
         (ex_lookups\<lparr>stats_by_game := [6 \<mapsto> [((''points'', ''mean''), 20),
                                                  ((''points'', ''sum''), 40)]]\<rparr>)
         (ex_game 6 1 2 90 90) ex_warm_state)) = length (features ex_warm_state) + 1
   \<and> process_game_basic
         (ex_lookups\<lparr>stats_by_game := [6 \<mapsto> [((''points'', ''mean''), 20),
                                                  ((''points'', ''sum''), 40)]]\<rparr>)
         (ex_game 6 1 2 90 90) ex_warm_state = Inl TypeError"
  unfolding ex_emissions_basic ex_run_scored ex_run_basic_scored
  by (simp add: run_eval game_features_basic_def player_feature_basic_def ex_lookups_def)

section \<open>Invariants of the team dictionary\<close>

text \<open>
  Claim C2.  After any number \<open>n\<close> of games of the sequence have been processed, every
  team in the store has \<open>wins + losses = games\<close> and at most 10 entries in
  \<open>recent_form\<close>; in the complete pipeline and, at every point it reaches, in the cell.
\<close>

theorem counters_consistent:
  "(team_stats (game_loop L (take n gs) init_state) t = Some s \<longrightarrow>
      wins s + losses s = games s \<and> length (recent_form s) \<le> 10)
   \<and> (game_loop_basic L' (take n gs) init_state = Inr st' \<and> team_stats st' t = Some s' \<longrightarrow>
      wins s' + losses s' = games s' \<and> length (recent_form s') \<le> 10)"
proof -
  have "consistent s" if "team_stats (game_loop L (take n gs) init_state) t = Some s"
    using game_loop_consistent [OF init_state_consistent, of L "take n gs"] that by blast
  moreover have "consistent s'"
    if "game_loop_basic L' (take n gs) init_state = Inr st'" "team_stats st' t = Some s'"
    using game_loop_basic_consistent [OF init_state_consistent that(1)] that(2) by blast
  ultimately show ?thesis
    by (auto simp: consistent_def)
qed

theorem counters_consistent_witness:
  "team_stats (game_loop ex_lookups (take 5 ex_games) init_state) 1 =
     Some \<lparr> games = 5, wins = 5, losses = 0, points_for = 498, points_against = 458,
            recent_form = [1, 1, 1, 1, 1], home_games = 3, home_wins = 3, away_games = 2,
            away_wins = 2, streak = 5, rest_days = 0 \<rparr>
   \<and> (5 :: int) + 0 = 5 \<and> length [1, 1, 1, 1, 1 :: int] \<le> 10
   \<and> game_loop_basic ex_lookups (take 5 ex_games) init_state =
       Inr \<lparr> team_stats =
               [1 \<mapsto> \<lparr> games = 5, wins = 5, losses = 0, points_for = 498, points_against = 458,
                        recent_form = [1, 1, 1, 1, 1], home_games = 0, home_wins = 0,
                        away_games = 0, away_wins = 0, streak = 0, rest_days = 0 \<rparr>,
                2 \<mapsto> \<lparr> games = 5, wins = 0, losses = 5, points_for = 458, points_against = 498,
                        recent_form = [0, 0, 0, 0, 0], home_games = 0, home_wins = 0,
                        away_games = 0, away_wins = 0, streak = 0, rest_days = 0 \<rparr>],
             features = [], labels = [] \<rparr>"
  using counters_consistent [where L = ex_lookups and L' = ex_lookups and n = 5
          and gs = ex_games and t = 1
          and s = "\<lparr> games = 5, wins = 5, losses = 0, points_for = 498, points_against = 458,
            recent_form = [1, 1, 1, 1, 1], home_games = 3, home_wins = 3, away_games = 2,
            away_wins = 2, streak = 5, rest_days = 0 \<rparr>"
          and s' = "\<lparr> games = 5, wins = 5, losses = 0, points_for = 498, points_against = 458,
                        recent_form = [1, 1, 1, 1, 1], home_games = 0, home_wins = 0,
                        away_games = 0, away_wins = 0, streak = 0, rest_days = 0 \<rparr>"]
  by (simp add: run_eval)



section \<open>Labels\<close>

text \<open>
  Claim C3.  The label sequence has one entry per emitted row, and entry \<open>i\<close> belongs to
  the game \<open>E ! i\<close> that emitted row \<open>i\<close>.  It is 1 exactly when that game's home
  score is strictly greater than its away score and 0 otherwise; equal scores give 0.
  The same holds for the cell whenever it returns.
\<close>

theorem label_home_win:
  assumes "y = snd (engineer_features agg gs sdf idf wdf sndf)"
      and "E = emissions update_team_stats gs Map.empty"
      and "Eb = emissions update_cold_basic gs Map.empty"
  shows "length y = length E
       \<and> length (fst (engineer_features agg gs sdf idf wdf sndf)) = length y
       \<and> (\<forall>i<length y. case E ! i of (g, a, b) \<Rightarrow>
             (\<exists>hs as. home_score g = Some hs \<and> away_score g = Some as
                \<and> (y ! i = 1 \<longleftrightarrow> hs > as) \<and> (y ! i = 0 \<longleftrightarrow> \<not> hs > as)
                \<and> (hs = as \<longrightarrow> y ! i = 0)))
       \<and> (\<forall>Xb yb. engineer_features_basic aggb gs sdf idf wdf sndf = Inr (Xb, yb) \<longrightarrow>
            length yb = length Eb \<and> length Xb = length yb
            \<and> (\<forall>i<length yb. case Eb ! i of (g, a, b) \<Rightarrow>
                 (\<exists>hs as. home_score g = Some hs \<and> away_score g = Some as
                    \<and> (yb ! i = 1 \<longleftrightarrow> hs > as) \<and> (yb ! i = 0 \<longleftrightarrow> \<not> hs > as)
                    \<and> (hs = as \<longrightarrow> yb ! i = 0))))"
proof -
  have lab: "\<exists>hs as. home_score g = Some hs \<and> away_score g = Some as
                \<and> (l = 1 \<longleftrightarrow> hs > as) \<and> (l = 0 \<longleftrightarrow> \<not> hs > as) \<and> (hs = as \<longrightarrow> l = 0)"
    if "home_score g \<noteq> None" "away_score g \<noteq> None"
       "l = game_label (the (home_score g)) (the (away_score g))" for g l
    using that by (auto simp: game_label_def)
  have y: "y = map (\<lambda>(g, a, b). game_label (the (home_score g)) (the (away_score g))) E"
    by (simp add: assms(1,2) engineer_features_emissions)
  have full: "case E ! i of (g, a, b) \<Rightarrow>
             (\<exists>hs as. home_score g = Some hs \<and> away_score g = Some as
                \<and> (y ! i = 1 \<longleftrightarrow> hs > as) \<and> (y ! i = 0 \<longleftrightarrow> \<not> hs > as)
                \<and> (hs = as \<longrightarrow> y ! i = 0))" if i: "i < length y" for i
  proof -
    obtain g a b where e: "E ! i = (g, a, b)" by (cases "E ! i")
    from i y have iE: "i < length E" by simp
    then have "(g, a, b) \<in> set (emissions update_team_stats gs Map.empty)"
      using e assms(2) nth_mem by metis
    from emissions_warm [OF this]
    have sc: "home_score g \<noteq> None" "away_score g \<noteq> None" by simp_all
    have "y ! i = game_label (the (home_score g)) (the (away_score g))"
      using iE e by (simp add: y)
    from lab [OF sc this] show ?thesis by (simp add: e)
  qed
  have basic: "length yb = length Eb \<and> length Xb = length yb
            \<and> (\<forall>i<length yb. case Eb ! i of (g, a, b) \<Rightarrow>
                 (\<exists>hs as. home_score g = Some hs \<and> away_score g = Some as
                    \<and> (yb ! i = 1 \<longleftrightarrow> hs > as) \<and> (yb ! i = 0 \<longleftrightarrow> \<not> hs > as)
                    \<and> (hs = as \<longrightarrow> yb ! i = 0)))"
    if ef: "engineer_features_basic aggb gs sdf idf wdf sndf = Inr (Xb, yb)" for Xb yb
  proof -
    from engineer_features_basic_emissions [OF ef] obtain Lb where
      Xb: "map Inr Xb = map (\<lambda>(g, a, b). game_features_basic Lb g a b) Eb"
      and yb: "yb = map (\<lambda>(g, a, b). game_label (the (home_score g)) (the (away_score g))) Eb"
      by (auto simp: assms(3))
    from Xb have lenX: "length Xb = length Eb"
      by (metis length_map)
    from yb have len: "length yb = length Eb" by simp
    have "case Eb ! i of (g, a, b) \<Rightarrow>
                 (\<exists>hs as. home_score g = Some hs \<and> away_score g = Some as
                    \<and> (yb ! i = 1 \<longleftrightarrow> hs > as) \<and> (yb ! i = 0 \<longleftrightarrow> \<not> hs > as)
                    \<and> (hs = as \<longrightarrow> yb ! i = 0))" if i: "i < length yb" for i
    proof -
      obtain g a b where e: "Eb ! i = (g, a, b)" by (cases "Eb ! i")
      from i len have iE: "i < length Eb" by simp
      then have "(g, a, b) \<in> set (emissions update_cold_basic gs Map.empty)"
        using e assms(3) nth_mem by metis
      from emissions_basic_warm [OF this]
      have sc: "home_score g \<noteq> None" "away_score g \<noteq> None" by simp_all
      have "yb ! i = game_label (the (home_score g)) (the (away_score g))"
        using iE e by (simp add: yb)
      from lab [OF sc this] show ?thesis by (simp add: e)
    qed
    with len lenX show ?thesis by simp
  qed
  have "length y = length E" by (simp add: y)
  moreover have "length (fst (engineer_features agg gs sdf idf wdf sndf)) = length y"
    by (simp add: assms(1) engineer_features_emissions)
  ultimately show ?thesis
    using full basic by blast
qed

theorem label_home_win_witness:
  "snd (engineer_features ex_agg ex_games ex_stats ex_injuries [] ex_sentiment) = [0]
   \<and> fst (emissions update_team_stats ex_games Map.empty ! 0) = ex_game 6 1 2 90 90
   \<and> home_score (ex_game 6 1 2 90 90) = Some 90 \<and> away_score (ex_game 6 1 2 90 90) = Some 90
   \<and> \<not> (90 :: real) > 90
   \<and> engineer_features_basic ex_agg_basic ex_games ex_stats ex_injuries [] ex_sentiment =
        Inr ([[1, 0, 498 / 5, 458 / 5, 458 / 5, 498 / 5, 1, 0, 1, 8, - 8, 0, 0, 6, 0, 18 / 25,
               17 / 100, 0, 0, 3 / 4, 2 / 7, 11 / 12, 1]], [0])"
  using label_home_win [where agg = ex_agg and aggb = ex_agg_basic and gs = ex_games
          and sdf = ex_stats and idf = ex_injuries and wdf = "[]" and sndf = ex_sentiment,
          OF refl refl refl]
  by (simp add: ex_run ex_run_basic ex_emissions ex_emissions_basic ex_game_def)

section \<open>Injury features\<close>

text \<open>
  The cell does not scale or cap the injury count: its entries 14 and 15 are the number
  of the team's injury rows with a non-null severity.  In the example run team 1 has six
  such rows and the emitted row has 6 at index 13, above 1 and different from
  min (6 / 5) 1; team 2 has one row, without a severity, and the row has 0 at index 14.
\<close>

lemma injury_feature_basic_build:
  assumes "build_lookups_basic agg sdf idf wdf sndf = Inr L"
  shows "injury_feature_basic L t =
           real (length (filter (\<lambda>r. inj_team_id r = t \<and> severity r \<noteq> None) (inj_rows idf)))"
proof -
  from assms have "injuries_by_team L = group_count (inj_rows idf)"
    by (auto simp: build_lookups_basic_def split: option.splits if_splits)
  moreover have "filter (\<lambda>r. inj_team_id r = t \<and> severity r \<noteq> None) (inj_rows idf) = []"
    if "filter (\<lambda>r. inj_team_id r = t) (inj_rows idf) = []"
    using that by (auto simp: filter_empty_conv)
  ultimately show ?thesis
    by (auto simp: injury_feature_basic_def group_count_def)
qed

theorem injury_features_counterexample:
  "\<not> isl (engineer_features_basic ex_agg_basic ex_games ex_stats ex_injuries [] ex_sentiment)
   \<and> length (fst (projr (engineer_features_basic ex_agg_basic ex_games ex_stats ex_injuries []
                          ex_sentiment))) = 1
   \<and> group_size (inj_rows ex_injuries) 1 = Some 6
   \<and> fst (projr (engineer_features_basic ex_agg_basic ex_games ex_stats ex_injuries []
                  ex_sentiment)) ! 0 ! 13 = 6
   \<and> fst (projr (engineer_features_basic ex_agg_basic ex_games ex_stats ex_injuries []
                  ex_sentiment)) ! 0 ! 13 \<noteq> min (real 6 / 5) 1
   \<and> \<not> fst (projr (engineer_features_basic ex_agg_basic ex_games ex_stats ex_injuries []
                    ex_sentiment)) ! 0 ! 13 \<le> 1
   \<and> group_size (inj_rows ex_injuries) 2 = Some 1
   \<and> fst (projr (engineer_features_basic ex_agg_basic ex_games ex_stats ex_injuries []
                  ex_sentiment)) ! 0 ! 14 = 0
   \<and> fst (projr (engineer_features_basic ex_agg_basic ex_games ex_stats ex_injuries []
                  ex_sentiment)) ! 0 ! 14 \<noteq> min (real 1 / 5) 1"
  unfolding ex_run_basic
  by (simp add: group_size_def ex_injuries_def)

text \<open>
  Claim C7, as amended.  In the complete pipeline, entries 14 and 15 of every emitted row
  (indices 13 and 14) are min (count / 5) 1 for the home and the away team of the
  emitting game, where the count is the number of the team's rows in the injuries table
  and 0 when the team has no row, or when the table has no \<^verbatim>\<open>team_id\<close> column; both lie
  between 0 and 1.  In the cell the two entries are the unscaled number of the team's
  injury rows with a non-null severity.
\<close>

theorem injury_features:
  assumes "X = fst (engineer_features agg gs sdf idf wdf sndf)"
      and "E = emissions update_team_stats gs Map.empty"
      and "Eb = emissions update_cold_basic gs Map.empty"
      and "rows_of = (\<lambda>t. if ''team_id'' \<in> set (inj_columns idf)
                           then length (filter (\<lambda>r. inj_team_id r = t) (inj_rows idf)) else 0)"
  shows "length X = length E
       \<and> (\<forall>i<length X. case E ! i of (g, a, b) \<Rightarrow>
             X ! i ! 13 = min (real (rows_of (home_team_id g)) / 5) 1
             \<and> X ! i ! 14 = min (real (rows_of (away_team_id g)) / 5) 1
             \<and> 0 \<le> X ! i ! 13 \<and> X ! i ! 13 \<le> 1 \<and> 0 \<le> X ! i ! 14 \<and> X ! i ! 14 \<le> 1)
       \<and> (\<forall>Xb yb. engineer_features_basic aggb gs sdf idf wdf sndf = Inr (Xb, yb) \<longrightarrow>
            length Xb = length Eb
            \<and> (\<forall>i<length Xb. case Eb ! i of (g, a, b) \<Rightarrow>
                 Xb ! i ! 13 =
                   real (length (filter (\<lambda>r. inj_team_id r = home_team_id g \<and> severity r \<noteq> None)
                                        (inj_rows idf)))
                 \<and> Xb ! i ! 14 =
                   real (length (filter (\<lambda>r. inj_team_id r = away_team_id g \<and> severity r \<noteq> None)
                                        (inj_rows idf)))))"
proof -
  have X: "X = map (\<lambda>(g, a, b). game_features (build_lookups agg sdf idf wdf sndf) g a b) E"
    by (simp add: assms(1,2) engineer_features_emissions)
  have inj: "injury_feature (build_lookups agg sdf idf wdf sndf) t = min (real (rows_of t) / 5) 1"
    for t
    by (simp add: injury_feature_build assms(4))
  have full: "case E ! i of (g, a, b) \<Rightarrow>
             X ! i ! 13 = min (real (rows_of (home_team_id g)) / 5) 1
             \<and> X ! i ! 14 = min (real (rows_of (away_team_id g)) / 5) 1
             \<and> 0 \<le> X ! i ! 13 \<and> X ! i ! 13 \<le> 1 \<and> 0 \<le> X ! i ! 14 \<and> X ! i ! 14 \<le> 1"
    if i: "i < length X" for i
  proof -
    obtain g a b where e: "E ! i = (g, a, b)" by (cases "E ! i")
    from i X have iE: "i < length E" by simp
    have "X ! i = game_features (build_lookups agg sdf idf wdf sndf) g a b"
      using iE e by (simp add: X)
    then show ?thesis
      by (simp add: e game_features_nth inj)
  qed
  have basic: "length Xb = length Eb
            \<and> (\<forall>i<length Xb. case Eb ! i of (g, a, b) \<Rightarrow>
                 Xb ! i ! 13 =
                   real (length (filter (\<lambda>r. inj_team_id r = home_team_id g \<and> severity r \<noteq> None)
                                        (inj_rows idf)))
                 \<and> Xb ! i ! 14 =
                   real (length (filter (\<lambda>r. inj_team_id r = away_team_id g \<and> severity r \<noteq> None)
                                        (inj_rows idf))))"
    if ef: "engineer_features_basic aggb gs sdf idf wdf sndf = Inr (Xb, yb)" for Xb yb
  proof -
    from engineer_features_basic_emissions [OF ef] obtain Lb where
      Lb: "build_lookups_basic aggb sdf idf wdf sndf = Inr Lb"
      and Xb: "map Inr Xb = map (\<lambda>(g, a, b). game_features_basic Lb g a b) Eb"
      by (auto simp: assms(3))
    then have len: "length Xb = length Eb"
      by (metis length_map)
    have "case Eb ! i of (g, a, b) \<Rightarrow>
                 Xb ! i ! 13 =
                   real (length (filter (\<lambda>r. inj_team_id r = home_team_id g \<and> severity r \<noteq> None)
                                        (inj_rows idf)))
                 \<and> Xb ! i ! 14 =
                   real (length (filter (\<lambda>r. inj_team_id r = away_team_id g \<and> severity r \<noteq> None)
                                        (inj_rows idf)))" if i: "i < length Xb" for i
    proof -
      obtain g a b where e: "Eb ! i = (g, a, b)" by (cases "Eb ! i")
      from i len have iE: "i < length Eb" by simp
      have "map Inr Xb ! i = map (\<lambda>(g, a, b). game_features_basic Lb g a b) Eb ! i"
        using Xb by simp
      then have v: "game_features_basic Lb g a b = Inr (Xb ! i)"
        using i iE e by simp
      show ?thesis
        using game_features_basic_nth(4,5) [OF v]
        by (simp add: e injury_feature_basic_build [OF Lb])
    qed
    with len show ?thesis by blast
  qed
  from X have "length X = length E" by simp
  with full basic show ?thesis by blast
qed

theorem injury_features_witness:
  "fst (engineer_features ex_agg ex_games ex_stats ex_injuries [] ex_sentiment) =
     [[1, 0, 498 / 5, 458 / 5, 458 / 5, 498 / 5, 1, 0, 1, 8, - 8, 0, 0, 1, 1 / 5, 18 / 25, 1 / 6,
       0, 0, 3 / 4, 2 / 7, 11 / 12, 1]]
   \<and> fst (emissions update_team_stats ex_games Map.empty ! 0) = ex_game 6 1 2 90 90
   \<and> fst (engineer_features ex_agg ex_games ex_stats ex_injuries [] ex_sentiment) ! 0 ! 13
       = min (real (length (filter (\<lambda>r. inj_team_id r = 1) (inj_rows ex_injuries))) / 5) 1
   \<and> fst (engineer_features ex_agg ex_games ex_stats ex_injuries [] ex_sentiment) ! 0 ! 14
       = min (real (length (filter (\<lambda>r. inj_team_id r = 2) (inj_rows ex_injuries))) / 5) 1
   \<and> engineer_features_basic ex_agg_basic ex_games ex_stats ex_injuries [] ex_sentiment =
        Inr ([[1, 0, 498 / 5, 458 / 5, 458 / 5, 498 / 5, 1, 0, 1, 8, - 8, 0, 0, 6, 0, 18 / 25,
               17 / 100, 0, 0, 3 / 4, 2 / 7, 11 / 12, 1]], [0])
   \<and> length (filter (\<lambda>r. inj_team_id r = 1 \<and> severity r \<noteq> None) (inj_rows ex_injuries)) = 6"
  using injury_features [where agg = ex_agg and aggb = ex_agg_basic and gs = ex_games
          and sdf = ex_stats and idf = ex_injuries and wdf = "[]" and sndf = ex_sentiment,
          OF refl refl refl refl]
  unfolding ex_run ex_run_basic ex_emissions ex_emissions_basic
  by (simp add: ex_injuries_def ex_game_def)

section \<open>Features looked up by team\<close>

text \<open>
  Claim C10.  The injury lookup gives each team the number of its rows in the whole
  injuries table, and the sentiment lookup the mean of all its scores in the whole
  sentiment table; a team without rows has no entry, and neither lookup looks at a game
  or a timestamp.  Entries 14 and 15 of an emitted row (indices 13 and 14) are
  min (rows / 5) 1 of the home and of the away team of the emitting game, and entries 18
  and 19 (indices 17 and 18) are tanh of the mean score of that team, with 0 for a team
  without scores.  So two rows of one run whose games have the same home team agree on
  entries 14 and 18, and two rows whose games have the same away team agree on entries 15
  and 19.
\<close>

theorem team_lookup_features:
  assumes "X = fst (engineer_features agg gs sdf idf wdf sndf)"
      and "E = map fst (emissions update_team_stats gs Map.empty)"
      and "L = build_lookups agg sdf idf wdf sndf"
      and "rows_of = (\<lambda>t. if ''team_id'' \<in> set (inj_columns idf)
                           then length (filter (\<lambda>r. inj_team_id r = t) (inj_rows idf)) else 0)"
      and "scores_of = (\<lambda>t. if ''team_id'' \<in> set (sent_columns sndf)
                                \<and> ''sentiment_score'' \<in> set (sent_columns sndf)
                             then map sentiment_score
                                    (filter (\<lambda>r. s_team_id r = t) (sent_rows sndf))
                             else [])"
      and "mean_of = (\<lambda>t. if scores_of t = [] then 0
                           else sum_list (scores_of t) / real (length (scores_of t)))"
  shows "(\<forall>t. injuries_by_team L t = (if rows_of t = 0 then None else Some (rows_of t)))
       \<and> (\<forall>t. sentiment_by_team L t = (if scores_of t = [] then None else Some (mean_of t)))
       \<and> length X = length E
       \<and> (\<forall>i<length X.
             X ! i ! 13 = min (real (rows_of (home_team_id (E ! i))) / 5) 1
             \<and> X ! i ! 14 = min (real (rows_of (away_team_id (E ! i))) / 5) 1
             \<and> X ! i ! 17 = tanh (mean_of (home_team_id (E ! i)))
             \<and> X ! i ! 18 = tanh (mean_of (away_team_id (E ! i))))
       \<and> (\<forall>i<length X. \<forall>j<length X.
             (home_team_id (E ! i) = home_team_id (E ! j) \<longrightarrow>
                X ! i ! 13 = X ! j ! 13 \<and> X ! i ! 17 = X ! j ! 17)
             \<and> (away_team_id (E ! i) = away_team_id (E ! j) \<longrightarrow>
                X ! i ! 14 = X ! j ! 14 \<and> X ! i ! 18 = X ! j ! 18))"
proof -
  let ?E = "emissions update_team_stats gs Map.empty"
  have inj: "injuries_by_team L t = (if rows_of t = 0 then None else Some (rows_of t))" for t
    by (simp add: assms(3,4) injuries_lookup_closed Let_def)
  have sen: "sentiment_by_team L t = (if scores_of t = [] then None else Some (mean_of t))" for t
    by (simp add: assms(3,5,6) sentiment_lookup_closed Let_def)
  have injf: "injury_feature L t = min (real (rows_of t) / 5) 1" for t
    by (simp add: injury_feature_def inj)
  have senf: "sentiment_feature L t = tanh (mean_of t)" for t
    by (simp add: sentiment_feature_def sen assms(6))
  have X: "X = map (\<lambda>(g, a, b). game_features L g a b) ?E"
    by (simp add: assms(1,3) engineer_features_emissions)
  have len: "length X = length E"
    by (simp add: X assms(2))
  have row: "X ! i ! 13 = min (real (rows_of (home_team_id (E ! i))) / 5) 1
             \<and> X ! i ! 14 = min (real (rows_of (away_team_id (E ! i))) / 5) 1
             \<and> X ! i ! 17 = tanh (mean_of (home_team_id (E ! i)))
             \<and> X ! i ! 18 = tanh (mean_of (away_team_id (E ! i)))"
    if i: "i < length X" for i
  proof -
    obtain g a b where e: "?E ! i = (g, a, b)" by (cases "?E ! i")
    from i X have iE: "i < length ?E" by simp
    have "X ! i = game_features L g a b"
      using iE e by (simp add: X)
    moreover have "E ! i = g"
      using iE e by (simp add: assms(2))
    ultimately show ?thesis
      by (simp add: game_features_nth injf senf)
  qed
  from inj sen len row show ?thesis
    by simp
qed

theorem team_lookup_features_witness:
  "fst (engineer_features ex_agg ex_games7 ex_stats ex_injuries [] ex_sentiment_scored) =
     [[1, 0, 498 / 5, 458 / 5, 458 / 5, 498 / 5, 1, 0, 1, 8, - 8, 0, 0, 1, 1 / 5, 18 / 25, 1 / 6,
       tanh (2 / 5), 0, 3 / 4, 2 / 7, 11 / 12, 1],
      [5 / 6, 1 / 6, 98, 274 / 3, 274 / 3, 98, 4 / 5, 1 / 5, 2 / 3, 20 / 3, - (20 / 3), 0, 0, 1,
       1 / 5, 18 / 25, 1 / 6, tanh (2 / 5), 0, 3 / 4, 2 / 7, 11 / 12, 1]]
   \<and> map fst (emissions update_team_stats ex_games7 Map.empty)
       = [ex_game 6 1 2 90 90, ex_game 7 1 2 80 70]
   \<and> home_team_id (ex_game 6 1 2 90 90) = home_team_id (ex_game 7 1 2 80 70)
   \<and> away_team_id (ex_game 6 1 2 90 90) = away_team_id (ex_game 7 1 2 80 70)
   \<and> map sentiment_score (filter (\<lambda>r. s_team_id r = 1) (sent_rows ex_sentiment_scored))
       = [1 / 2, 3 / 10]
   \<and> sentiment_by_team (build_lookups ex_agg ex_stats ex_injuries [] ex_sentiment_scored) 1
       = Some (2 / 5)
   \<and> sentiment_by_team (build_lookups ex_agg ex_stats ex_injuries [] ex_sentiment_scored) 2
       = None
   \<and> injuries_by_team (build_lookups ex_agg ex_stats ex_injuries [] ex_sentiment_scored) 1
       = Some 6
   \<and> tanh (2 / 5 :: real) \<noteq> 0"
  using team_lookup_features [where agg = ex_agg and gs = ex_games7
          and sdf = ex_stats and idf = ex_injuries and wdf = "[]" and sndf = ex_sentiment_scored,
          OF refl refl refl refl refl refl]
  unfolding ex_run7_scored ex_emissions7
  by (simp add: ex_game_def ex_sentiment_scored_def ex_injuries_def)

section \<open>Games without a score\<close>

text \<open>
  Claim C4.  A game whose home score or away score is null appends nothing to the
  features and labels, leaves the dictionary of every team that already has one exactly
  as it was (all entries), and raises nothing: the loop goes on with the next game.  The
  only change to the store is that a team seen for the first time gets its all-zero
  dictionary, which lines 63-79 create before the score test.  The cell does the same
  and returns normally.
\<close>

theorem missing_score_skipped:
  assumes "home_score g = None \<or> away_score g = None"
  shows "features (process_game L g st) = features st
       \<and> labels (process_game L g st) = labels st
       \<and> (\<forall>t s. team_stats st t = Some s \<longrightarrow> team_stats (process_game L g st) t = Some s)
       \<and> (\<forall>t. team_stats st t = None \<longrightarrow>
              team_stats (process_game L g st) t =
                (if t = home_team_id g \<or> t = away_team_id g then Some new_team_stats else None))
       \<and> game_loop L (g # gs) st = game_loop L gs (process_game L g st)
       \<and> process_game_basic L' g st = Inr (process_game L g st)
       \<and> game_loop_basic L' (g # gs) st = game_loop_basic L' gs (process_game L g st)"
  using assms
  by (simp add: process_game_null process_game_basic_null ensure_teams_apply)

theorem missing_score_skipped_witness:
  "home_score ((ex_game 7 1 3 0 0)\<lparr>home_score := None\<rparr>) = None
   \<and> features (process_game ex_lookups ((ex_game 7 1 3 0 0)\<lparr>home_score := None\<rparr>) ex_warm_state)
       = features ex_warm_state
   \<and> labels (process_game ex_lookups ((ex_game 7 1 3 0 0)\<lparr>home_score := None\<rparr>) ex_warm_state)
       = labels ex_warm_state
   \<and> team_stats (process_game ex_lookups ((ex_game 7 1 3 0 0)\<lparr>home_score := None\<rparr>) ex_warm_state) 1
       = team_stats ex_warm_state 1
   \<and> team_stats ex_warm_state 1 \<noteq> None
   \<and> team_stats (process_game ex_lookups ((ex_game 7 1 3 0 0)\<lparr>home_score := None\<rparr>) ex_warm_state) 3
       = Some new_team_stats
   \<and> process_game_basic ex_lookups ((ex_game 7 1 3 0 0)\<lparr>home_score := None\<rparr>) ex_warm_state
       = Inr (process_game ex_lookups ((ex_game 7 1 3 0 0)\<lparr>home_score := None\<rparr>) ex_warm_state)"
  using missing_score_skipped [of "(ex_game 7 1 3 0 0)\<lparr>home_score := None\<rparr>"
          ex_lookups ex_warm_state "[]" ex_lookups]
  by (simp add: ex_game_def ex_warm_state_def)

section \<open>The empty result\<close>

text \<open>
  Claim C5.  When the game loop produces no pair, \<open>process_data\<close> raises the
  \<^verbatim>\<open>ValueError\<close> of line 218, whatever the splitting and scaling stage would do; this
  is so in particular for an empty games table.  Whenever \<open>process_data\<close> returns, the
  feature matrix was not empty and the result is that of the splitting and scaling stage
  on it.
\<close>

theorem empty_result_raises:
  "(fst (engineer_features agg gs sdf idf wdf sndf) = [] \<longrightarrow>
      process_data split_scale agg gs sdf idf wdf sndf
        = Inl (ValueError ''No features created! Check your data.''))
   \<and> process_data split_scale agg [] sdf idf wdf sndf
        = Inl (ValueError ''No features created! Check your data.'')
   \<and> (\<forall>r. process_data split_scale agg gs sdf idf wdf sndf = Inr r \<longrightarrow>
          fst (engineer_features agg gs sdf idf wdf sndf) \<noteq> []
          \<and> split_scale (fst (engineer_features agg gs sdf idf wdf sndf))
                         (snd (engineer_features agg gs sdf idf wdf sndf)) = Inr r)"
  by (auto simp: process_data_def engineer_features_def init_state_def split: prod.splits if_splits)

theorem empty_result_raises_witness:
  "fst (engineer_features (\<lambda>d c. None) (take 3 ex_games) ex_stats ex_injuries [] ex_sentiment) = []
   \<and> process_data (\<lambda>X y. Inr (X, y)) (\<lambda>d c. None) (take 3 ex_games) ex_stats ex_injuries []
        ex_sentiment = Inl (ValueError ''No features created! Check your data.'')"
  using empty_result_raises [of "\<lambda>d c. None" "take 3 ex_games" ex_stats ex_injuries "[]"
          ex_sentiment "\<lambda>X y. Inr (X, y)"]
  by (simp add: engineer_features_def run_eval)

section \<open>The streak\<close>

text \<open>
  Claim C6.  For a scored game between two different teams: when the home team wins,
  its streak becomes streak + 1 if it was positive and 1 otherwise, and the away team's
  becomes streak - 1 if it was not positive and -1 otherwise; when the home team does
  not win the roles are exchanged.  The streak of every other team is untouched.  When
  a game names one team as home and away, both rules are applied to the one dictionary
  in the order of the source, which leaves -1 after a home win and 1 otherwise.
\<close>

theorem streak_update:
  assumes "home_score g = Some hs" "away_score g = Some as"
      and "ts = ensure_teams g (team_stats st)"
      and "ts' = team_stats (process_game L g st)"
  shows "(home_team_id g \<noteq> away_team_id g \<longrightarrow>
          (hs > as \<longrightarrow>
              streak (the (ts' (home_team_id g))) =
                (if streak (the (ts (home_team_id g))) > 0
                 then streak (the (ts (home_team_id g))) + 1 else 1)
            \<and> streak (the (ts' (away_team_id g))) =
                (if streak (the (ts (away_team_id g))) \<le> 0
                 then streak (the (ts (away_team_id g))) - 1 else - 1))
          \<and> (\<not> hs > as \<longrightarrow>
              streak (the (ts' (home_team_id g))) =
                (if streak (the (ts (home_team_id g))) \<le> 0
                 then streak (the (ts (home_team_id g))) - 1 else - 1)
            \<and> streak (the (ts' (away_team_id g))) =
                (if streak (the (ts (away_team_id g))) > 0
                 then streak (the (ts (away_team_id g))) + 1 else 1)))
       \<and> (home_team_id g = away_team_id g \<longrightarrow>
            streak (the (ts' (home_team_id g))) = (if hs > as then - 1 else 1))
       \<and> (\<forall>t. t \<noteq> home_team_id g \<and> t \<noteq> away_team_id g \<longrightarrow>
              map_option streak (ts' t) = map_option streak (team_stats st t))"
proof -
  from ensure_teams_home [of g "team_stats st"] obtain a where a: "ts (home_team_id g) = Some a"
    using assms(3) by auto
  from ensure_teams_away [of g "team_stats st"] obtain b where b: "ts (away_team_id g) = Some b"
    using assms(3) by auto
  have ts': "ts' = update_team_stats (home_team_id g) (away_team_id g) hs as ts"
    using assms by (simp add: process_game_scored)
  have h: "ts' (home_team_id g) = Some (home_after hs as a)"
    if "home_team_id g \<noteq> away_team_id g"
    using that a by (simp add: ts' update_team_stats_home)
  have w: "ts' (away_team_id g) = Some (away_after hs as b)"
    if "home_team_id g \<noteq> away_team_id g"
    using that b by (simp add: ts' update_team_stats_away)
  have self: "ts' (home_team_id g) = Some (self_after hs as a)"
    if "home_team_id g = away_team_id g"
    using a update_team_stats_self [of "home_team_id g" hs as ts]
    by (simp add: ts' that [symmetric])
  have o: "\<forall>t. t \<noteq> home_team_id g \<and> t \<noteq> away_team_id g \<longrightarrow> ts' t = team_stats st t"
    by (simp add: ts' update_team_stats_other assms(3) ensure_teams_apply)
  have distinct: "home_team_id g \<noteq> away_team_id g \<longrightarrow>
          (hs > as \<longrightarrow>
              streak (the (ts' (home_team_id g))) =
                (if streak (the (ts (home_team_id g))) > 0
                 then streak (the (ts (home_team_id g))) + 1 else 1)
            \<and> streak (the (ts' (away_team_id g))) =
                (if streak (the (ts (away_team_id g))) \<le> 0
                 then streak (the (ts (away_team_id g))) - 1 else - 1))
          \<and> (\<not> hs > as \<longrightarrow>
              streak (the (ts' (home_team_id g))) =
                (if streak (the (ts (home_team_id g))) \<le> 0
                 then streak (the (ts (home_team_id g))) - 1 else - 1)
            \<and> streak (the (ts' (away_team_id g))) =
                (if streak (the (ts (away_team_id g))) > 0
                 then streak (the (ts (away_team_id g))) + 1 else 1))"
    by (simp add: h w a b home_after_def away_after_def streak_win_def streak_loss_def)
  have same: "home_team_id g = away_team_id g \<longrightarrow>
            streak (the (ts' (home_team_id g))) = (if hs > as then - 1 else 1)"
  proof
    assume eq: "home_team_id g = away_team_id g"
    from self [OF eq] show "streak (the (ts' (home_team_id g))) = (if hs > as then - 1 else 1)"
      by (simp add: self_after_def streak_win_def streak_loss_def)
  qed
  from distinct same o show ?thesis
    by simp
qed

theorem streak_update_witness:
  "home_score (ex_game 6 1 2 100 90) = Some 100 \<and> away_score (ex_game 6 1 2 100 90) = Some 90
   \<and> home_team_id (ex_game 6 1 2 100 90) \<noteq> away_team_id (ex_game 6 1 2 100 90)
   \<and> (100 :: real) > 90
   \<and> streak (the (ensure_teams (ex_game 6 1 2 100 90) (team_stats ex_warm_state) 1)) = - 1
   \<and> streak (the (team_stats (process_game ex_lookups (ex_game 6 1 2 100 90) ex_warm_state) 1)) = 1
   \<and> streak (the (ensure_teams (ex_game 6 1 2 100 90) (team_stats ex_warm_state) 2)) = 1
   \<and> streak (the (team_stats (process_game ex_lookups (ex_game 6 1 2 100 90) ex_warm_state) 2)) = - 1"
  using streak_update [of "ex_game 6 1 2 100 90" 100 90
          "ensure_teams (ex_game 6 1 2 100 90) (team_stats ex_warm_state)" ex_warm_state
          "team_stats (process_game ex_lookups (ex_game 6 1 2 100 90) ex_warm_state)" ex_lookups]
  by (simp add: ex_game_def ex_warm_state_def ensure_teams_eval new_team_stats_def)

end
